theory Spec2Isabelle
  imports Main
begin

section \<open>The durable store (backend/db/init.sql, backend/src/utils/db.js)\<close>

text \<open>
  Identifiers are the text form of a UUID, in its canonical spelling (two spellings of one
  UUID are not told apart), and timestamps are ticks of the database clock. A string is the
  list of its characters.
  Every table is the list of its rows in insertion order. Only the columns that the
  services below read or write are kept for \<open>users\<close> (its primary key).

  Three things the services cannot control are part of the store's state:
  \<^item> \<open>current_timestamp\<close>, what \<^verbatim>\<open>CURRENT_TIMESTAMP\<close> evaluates to;
  \<^item> \<open>uuid_source\<close> and \<open>uuid_drawn\<close>, the stream that \<^verbatim>\<open>uuid_generate_v4()\<close> and
    \<^verbatim>\<open>uuidv4()\<close> draw from;
  \<^item> \<open>faults\<close>, the fate of the coming driver calls (\<^verbatim>\<open>pool.query\<close>, \<^verbatim>\<open>pool.connect\<close>,
    \<^verbatim>\<open>client.query\<close>), one flag per call in order: \<open>True\<close> means that the call throws
    for a reason outside the tables (lost connection, timeout, parameter text the server
    does not accept). Past the end of the list no call fails that way.
\<close>

type_synonym uuid = string
type_synonym timestamp = nat

datatype error =
    AppError string nat      \<comment> \<open>\<^verbatim>\<open>new AppError(message, statusCode)\<close>\<close>
  | DatabaseError string     \<comment> \<open>an error thrown by the driver, with its SQLSTATE\<close>

record chat_room =
  cr_id :: uuid
  cr_name :: "string option"
  cr_type :: string
  cr_creator_id :: uuid
  cr_created_at :: timestamp
  cr_updated_at :: timestamp

record chat_participant =
  cp_chat_room_id :: uuid
  cp_user_id :: uuid
  cp_role :: string
  cp_joined_at :: timestamp

record message =
  m_id :: uuid
  m_chat_room_id :: uuid
  m_sender_id :: uuid
  m_content :: string
  m_content_type :: string
  m_media_url :: "string option"
  m_created_at :: timestamp
  m_updated_at :: timestamp
  m_is_edited :: bool
  m_is_deleted :: bool

record message_reaction =
  mr_message_id :: uuid
  mr_user_id :: uuid
  mr_reaction :: string
  mr_created_at :: timestamp

record database =
  users :: "uuid list"
  chat_rooms :: "chat_room list"
  chat_participants :: "chat_participant list"
  messages :: "message list"
  message_reactions :: "message_reaction list"
  current_timestamp :: timestamp
  uuid_source :: "nat \<Rightarrow> uuid"
  uuid_drawn :: nat
  faults :: "bool list"

definition io_fault :: "database \<Rightarrow> bool" where
  "io_fault db = (case faults db of [] \<Rightarrow> False | b # _ \<Rightarrow> b)"

definition io_step :: "database \<Rightarrow> database" where
  "io_step db = db\<lparr>faults := tl (faults db)\<rparr>"

definition next_uuid :: "database \<Rightarrow> uuid" where
  "next_uuid db = uuid_source db (uuid_drawn db)"

definition draw_uuid :: "database \<Rightarrow> database" where
  "draw_uuid db = db\<lparr>uuid_drawn := Suc (uuid_drawn db)\<rparr>"

text \<open>No driver call to come fails for a reason outside the tables.\<close>

definition fault_free :: "database \<Rightarrow> bool" where
  "fault_free db = (True \<notin> set (faults db))"

text \<open>SQLSTATE codes of the errors the schema's constraints raise.\<close>

definition connection_failure :: error where
  "connection_failure = DatabaseError ''08006''"

definition not_null_violation :: error where
  "not_null_violation = DatabaseError ''23502''"

definition foreign_key_violation :: error where
  "foreign_key_violation = DatabaseError ''23503''"

definition unique_violation :: error where
  "unique_violation = DatabaseError ''23505''"

definition string_data_right_truncation :: error where
  "string_data_right_truncation = DatabaseError ''22001''"

text \<open>
  Storing a string in a \<^verbatim>\<open>VARCHAR(n)\<close> column: a value of at most \<open>n\<close> characters is
  stored as it is; a longer one whose characters past the \<open>n\<close>-th are all spaces is cut to
  its first \<open>n\<close> characters; any other is refused (the statement fails with 22001).
\<close>

definition varchar :: "nat \<Rightarrow> string \<Rightarrow> string option" where
  "varchar n s =
     (if length s \<le> n then Some s
      else if list_all (\<lambda>c. c = CHR '' '') (drop n s) then Some (take n s)
      else None)"

subsection \<open>The statements the services send\<close>

text \<open>
  \<^verbatim>\<open>SELECT 1 FROM chat_participants WHERE chat_room_id = $1 AND user_id = $2\<close>
\<close>

definition select_participant :: "uuid \<Rightarrow> uuid \<Rightarrow> database \<Rightarrow> (error + chat_participant list) \<times> database" where
  "select_participant chatId userId db =
     (if io_fault db then (Inl connection_failure, io_step db)
      else (Inr (filter (\<lambda>p. cp_chat_room_id p = chatId \<and> cp_user_id p = userId) (chat_participants db)),
            io_step db))"

text \<open>
  \<^verbatim>\<open>INSERT INTO messages (chat_room_id, sender_id, content, content_type, media_url)
  VALUES ($1, $2, $3, $4, $5) RETURNING *\<close>
  against
  \<^verbatim>\<open>id UUID PRIMARY KEY DEFAULT uuid_generate_v4(),
  chat_room_id UUID NOT NULL REFERENCES chat_rooms(id),
  sender_id UUID NOT NULL REFERENCES users(id), content TEXT NOT NULL,
  content_type VARCHAR(20) NOT NULL DEFAULT 'text', media_url TEXT,
  created_at, updated_at DEFAULT CURRENT_TIMESTAMP,
  is_edited, is_deleted DEFAULT FALSE\<close>.
  The statement is sent on the pool, so it commits by itself.
\<close>

definition insert_message ::
  "uuid \<Rightarrow> uuid \<Rightarrow> string option \<Rightarrow> string \<Rightarrow> string option \<Rightarrow> database
     \<Rightarrow> (error + message) \<times> database" where
  "insert_message chatId senderId content contentType mediaUrl db =
     (if io_fault db then (Inl connection_failure, io_step db)
      else case content of
        None \<Rightarrow> (Inl not_null_violation, io_step db)
      | Some text \<Rightarrow>
          (case varchar 20 contentType of
             None \<Rightarrow> (Inl string_data_right_truncation, io_step db)
           | Some content_type \<Rightarrow>
               if next_uuid db \<in> set (map m_id (messages db))
                 then (Inl unique_violation, draw_uuid (io_step db))
               else if chatId \<in> set (map cr_id (chat_rooms db)) \<and> senderId \<in> set (users db)
                 then
                   (let row = \<lparr>m_id = next_uuid db, m_chat_room_id = chatId, m_sender_id = senderId,
                               m_content = text, m_content_type = content_type,
                               m_media_url = mediaUrl,
                               m_created_at = current_timestamp db,
                               m_updated_at = current_timestamp db,
                               m_is_edited = False, m_is_deleted = False\<rparr>
                    in (Inr row, (draw_uuid (io_step db))\<lparr>messages := messages db @ [row]\<rparr>))
               else (Inl foreign_key_violation, draw_uuid (io_step db))))"

text \<open>
  \<^verbatim>\<open>UPDATE chat_rooms SET updated_at = CURRENT_TIMESTAMP WHERE id = $1\<close>
  (the trigger \<^verbatim>\<open>update_chat_rooms_updated_at\<close> sets the same column to the same value).
  A statement that matches no row succeeds.
\<close>

definition update_chat_room_updated_at :: "uuid \<Rightarrow> database \<Rightarrow> (error + unit) \<times> database" where
  "update_chat_room_updated_at chatId db =
     (if io_fault db then (Inl connection_failure, io_step db)
      else (Inr (),
            (io_step db)\<lparr>chat_rooms :=
               map (\<lambda>r. if cr_id r = chatId then r\<lparr>cr_updated_at := current_timestamp db\<rparr> else r)
                 (chat_rooms db)\<rparr>))"

text \<open>\<^verbatim>\<open>SELECT chat_room_id FROM messages WHERE id = $1\<close>\<close>

definition select_message_chat_room :: "uuid \<Rightarrow> database \<Rightarrow> (error + uuid list) \<times> database" where
  "select_message_chat_room messageId db =
     (if io_fault db then (Inl connection_failure, io_step db)
      else (Inr (map m_chat_room_id (filter (\<lambda>m. m_id m = messageId) (messages db))), io_step db))"

text \<open>
  \<^verbatim>\<open>INSERT INTO message_reactions (message_id, user_id, reaction) VALUES ($1, $2, $3)
  ON CONFLICT (message_id, user_id, reaction) DO NOTHING RETURNING *\<close>
  against
  \<^verbatim>\<open>message_id UUID NOT NULL REFERENCES messages(id),
  user_id UUID NOT NULL REFERENCES users(id), reaction VARCHAR(50) NOT NULL,
  created_at DEFAULT CURRENT_TIMESTAMP, PRIMARY KEY (message_id, user_id, reaction)\<close>.
  The symbol is stored as the column takes it (see \<open>varchar\<close>), and the conflict is on
  the stored value. On a conflict no row is inserted and none is returned.
\<close>

definition reaction_key :: "message_reaction \<Rightarrow> uuid \<times> uuid \<times> string" where
  "reaction_key r = (mr_message_id r, mr_user_id r, mr_reaction r)"

definition insert_reaction ::
  "uuid \<Rightarrow> uuid \<Rightarrow> string \<Rightarrow> database \<Rightarrow> (error + message_reaction list) \<times> database" where
  "insert_reaction messageId userId reaction db =
     (if io_fault db then (Inl connection_failure, io_step db)
      else case varchar 50 reaction of
        None \<Rightarrow> (Inl string_data_right_truncation, io_step db)
      | Some symbol \<Rightarrow>
          if (messageId, userId, symbol) \<in> set (map reaction_key (message_reactions db))
            then (Inr [], io_step db)
          else if messageId \<in> set (map m_id (messages db)) \<and> userId \<in> set (users db)
            then
              (let row = \<lparr>mr_message_id = messageId, mr_user_id = userId, mr_reaction = symbol,
                          mr_created_at = current_timestamp db\<rparr>
               in (Inr [row], (io_step db)\<lparr>message_reactions := message_reactions db @ [row]\<rparr>))
          else (Inl foreign_key_violation, io_step db))"

text \<open>
  \<^verbatim>\<open>DELETE FROM message_reactions WHERE message_id = $1 AND user_id = $2 AND reaction = $3\<close>
\<close>

definition delete_reaction :: "uuid \<Rightarrow> uuid \<Rightarrow> string \<Rightarrow> database \<Rightarrow> (error + unit) \<times> database" where
  "delete_reaction messageId userId reaction db =
     (if io_fault db then (Inl connection_failure, io_step db)
      else (Inr (),
            (io_step db)\<lparr>message_reactions :=
               filter (\<lambda>r. reaction_key r \<noteq> (messageId, userId, reaction)) (message_reactions db)\<rparr>))"

text \<open>
  \<^verbatim>\<open>SELECT cr.* FROM chat_rooms cr
  JOIN chat_participants cp1 ON cr.id = cp1.chat_room_id
  JOIN chat_participants cp2 ON cr.id = cp2.chat_room_id
  WHERE cr.type = 'direct'
  AND ((cp1.user_id = $1 AND cp2.user_id = $2) OR (cp1.user_id = $2 AND cp2.user_id = $1))
  LIMIT 1\<close>:
  a direct room with a participant row of each of the two users, the first in table order.
\<close>

definition is_participant :: "database \<Rightarrow> uuid \<Rightarrow> uuid \<Rightarrow> bool" where
  "is_participant db chatId userId =
     list_ex (\<lambda>p. cp_chat_room_id p = chatId \<and> cp_user_id p = userId) (chat_participants db)"

definition select_direct_chat :: "uuid \<Rightarrow> uuid \<Rightarrow> database \<Rightarrow> (error + chat_room list) \<times> database" where
  "select_direct_chat userId1 userId2 db =
     (if io_fault db then (Inl connection_failure, io_step db)
      else (Inr (take 1 (filter (\<lambda>r. cr_type r = ''direct'' \<and> is_participant db (cr_id r) userId1
                                        \<and> is_participant db (cr_id r) userId2) (chat_rooms db))),
            io_step db))"

text \<open>
  \<^verbatim>\<open>INSERT INTO chat_rooms (id, name, type, creator_id) VALUES (...) RETURNING *\<close>
  against
  \<^verbatim>\<open>id UUID PRIMARY KEY, name VARCHAR(100), type VARCHAR(20) NOT NULL,
  creator_id UUID NOT NULL REFERENCES users(id), created_at, updated_at DEFAULT CURRENT_TIMESTAMP\<close>.
\<close>

definition insert_chat_room ::
  "uuid \<Rightarrow> string option \<Rightarrow> string \<Rightarrow> uuid \<Rightarrow> database \<Rightarrow> (error + chat_room) \<times> database" where
  "insert_chat_room chatId name type creatorId db =
     (if io_fault db then (Inl connection_failure, io_step db)
      else case (case name of
                   None \<Rightarrow> Some None
                 | Some n \<Rightarrow> (case varchar 100 n of None \<Rightarrow> None | Some n' \<Rightarrow> Some (Some n'))) of
        None \<Rightarrow> (Inl string_data_right_truncation, io_step db)
      | Some stored_name \<Rightarrow>
          (case varchar 20 type of
             None \<Rightarrow> (Inl string_data_right_truncation, io_step db)
           | Some stored_type \<Rightarrow>
               if chatId \<in> set (map cr_id (chat_rooms db)) then (Inl unique_violation, io_step db)
               else if creatorId \<in> set (users db)
                 then
                   (let row = \<lparr>cr_id = chatId, cr_name = stored_name, cr_type = stored_type,
                               cr_creator_id = creatorId,
                               cr_created_at = current_timestamp db,
                               cr_updated_at = current_timestamp db\<rparr>
                    in (Inr row, (io_step db)\<lparr>chat_rooms := chat_rooms db @ [row]\<rparr>))
               else (Inl foreign_key_violation, io_step db)))"

text \<open>
  \<^verbatim>\<open>INSERT INTO chat_participants (chat_room_id, user_id, role) VALUES ($1, $2, $3)\<close>
  against
  \<^verbatim>\<open>chat_room_id UUID NOT NULL REFERENCES chat_rooms(id),
  user_id UUID NOT NULL REFERENCES users(id), role VARCHAR(20) NOT NULL DEFAULT 'member',
  joined_at DEFAULT CURRENT_TIMESTAMP, PRIMARY KEY (chat_room_id, user_id)\<close>.
\<close>

definition insert_chat_participant ::
  "uuid \<Rightarrow> uuid \<Rightarrow> string \<Rightarrow> database \<Rightarrow> (error + unit) \<times> database" where
  "insert_chat_participant chatId userId role db =
     (if io_fault db then (Inl connection_failure, io_step db)
      else case varchar 20 role of
        None \<Rightarrow> (Inl string_data_right_truncation, io_step db)
      | Some stored_role \<Rightarrow>
          if is_participant db chatId userId then (Inl unique_violation, io_step db)
          else if chatId \<in> set (map cr_id (chat_rooms db)) \<and> userId \<in> set (users db)
            then (Inr (),
                  (io_step db)\<lparr>chat_participants := chat_participants db @
                     [\<lparr>cp_chat_room_id = chatId, cp_user_id = userId, cp_role = stored_role,
                       cp_joined_at = current_timestamp db\<rparr>]\<rparr>)
          else (Inl foreign_key_violation, io_step db))"

subsection \<open>\<^verbatim>\<open>transaction\<close> of utils/db.js\<close>

text \<open>
  \<^verbatim>\<open>getClient\<close> takes a client from the pool; \<^verbatim>\<open>BEGIN\<close>, \<^verbatim>\<open>COMMIT\<close> and \<^verbatim>\<open>ROLLBACK\<close>
  are statements on that client. What a transaction wrote is durable only once
  \<^verbatim>\<open>COMMIT\<close> has returned: on every other path the tables are those of the start.
\<close>

definition getClient :: "database \<Rightarrow> (error + unit) \<times> database" where
  "getClient db = (if io_fault db then (Inl connection_failure, io_step db) else (Inr (), io_step db))"

definition client_query_control :: "database \<Rightarrow> (error + unit) \<times> database" where
  "client_query_control db =
     (if io_fault db then (Inl connection_failure, io_step db) else (Inr (), io_step db))"

definition restore_tables :: "database \<Rightarrow> database \<Rightarrow> database" where
  "restore_tables snapshot db =
     db\<lparr>users := users snapshot, chat_rooms := chat_rooms snapshot,
        chat_participants := chat_participants snapshot, messages := messages snapshot,
        message_reactions := message_reactions snapshot\<rparr>"

definition rollback_and_throw :: "error \<Rightarrow> database \<Rightarrow> database \<Rightarrow> (error + 'a) \<times> database" where
  "rollback_and_throw e snapshot db =
     (case client_query_control db of
        (Inl e', db') \<Rightarrow> (Inl e', restore_tables snapshot db')
      | (Inr _, db') \<Rightarrow> (Inl e, restore_tables snapshot db'))"

definition transaction ::
  "(database \<Rightarrow> (error + 'a) \<times> database) \<Rightarrow> database \<Rightarrow> (error + 'a) \<times> database" where
  "transaction callback db =
     (case getClient db of
        (Inl e, db0) \<Rightarrow> (Inl e, db0)
      | (Inr _, db0) \<Rightarrow>
          (case client_query_control db0 of
             (Inl e, db1) \<Rightarrow> rollback_and_throw e db db1
           | (Inr _, db1) \<Rightarrow>
               (case callback db1 of
                  (Inl e, db2) \<Rightarrow> rollback_and_throw e db db2
                | (Inr result, db2) \<Rightarrow>
                    (case client_query_control db2 of
                       (Inl e, db3) \<Rightarrow> rollback_and_throw e db db3
                     | (Inr _, db3) \<Rightarrow> (Inr result, db3)))))"

section \<open>\<^verbatim>\<open>validateUuid\<close> (services/chatService.js, services/messageService.js)\<close>

text \<open>
  \<open>isValidUuid\<close> is \<^verbatim>\<open>validate\<close> of the \<^verbatim>\<open>uuid\<close> package, a parameter here.
  Identifiers are strings, so \<^verbatim>\<open>typeof id !== 'string'\<close> is false and \<^verbatim>\<open>!id\<close> holds
  of the empty string only.
\<close>

definition validateUuid :: "(string \<Rightarrow> bool) \<Rightarrow> string \<Rightarrow> string \<Rightarrow> error + unit" where
  "validateUuid isValidUuid ident fieldName =
     (if ident = [] then Inl (AppError (fieldName @ '' is required and must be a string'') 400)
      else if \<not> isValidUuid ident then Inl (AppError (''Invalid '' @ fieldName @ '' format'') 400)
      else Inr ())"

section \<open>services/chatService.js\<close>

definition isUserInChat :: "uuid \<Rightarrow> uuid \<Rightarrow> database \<Rightarrow> (error + bool) \<times> database" where
  "isUserInChat chatId userId db =
     (case select_participant chatId userId db of
        (Inl e, db1) \<Rightarrow> (Inl e, db1)
      | (Inr rows, db1) \<Rightarrow> (Inr (0 < length rows), db1))"

definition createDirectChat_callback :: "uuid \<Rightarrow> uuid \<Rightarrow> database \<Rightarrow> (error + chat_room) \<times> database" where
  "createDirectChat_callback userId1 userId2 db =
     (case select_direct_chat userId1 userId2 db of
        (Inl e, db1) \<Rightarrow> (Inl e, db1)
      | (Inr existingChat, db1) \<Rightarrow>
          (case existingChat of
             row # _ \<Rightarrow> (Inr row, db1)
           | [] \<Rightarrow>
               (let chatId = next_uuid db1 in
                case insert_chat_room chatId None ''direct'' userId1 (draw_uuid db1) of
                  (Inl e, db2) \<Rightarrow> (Inl e, db2)
                | (Inr chat, db2) \<Rightarrow>
                    \<comment> \<open>\<^verbatim>\<open>Promise.all\<close>: both inserts are queued on the client, in this order\<close>
                    (case insert_chat_participant chatId userId1 ''member'' db2 of
                       (Inl e, db3) \<Rightarrow> (Inl e, io_step db3)
                     | (Inr _, db3) \<Rightarrow>
                         (case insert_chat_participant chatId userId2 ''member'' db3 of
                            (Inl e, db4) \<Rightarrow> (Inl e, db4)
                          | (Inr _, db4) \<Rightarrow> (Inr chat, db4))))))"

definition createDirectChat ::
  "(string \<Rightarrow> bool) \<Rightarrow> uuid \<Rightarrow> uuid \<Rightarrow> database \<Rightarrow> (error + chat_room) \<times> database" where
  "createDirectChat isValidUuid userId1 userId2 db =
     (case validateUuid isValidUuid userId1 ''User ID 1'' of
        Inl e \<Rightarrow> (Inl e, db)
      | Inr _ \<Rightarrow>
          (case validateUuid isValidUuid userId2 ''User ID 2'' of
             Inl e \<Rightarrow> (Inl e, db)
           | Inr _ \<Rightarrow>
               if userId1 = userId2 then (Inl (AppError ''Cannot create chat with yourself'' 400), db)
               else transaction (createDirectChat_callback userId1 userId2) db))"

text \<open>The decimal numeral of \<^verbatim>\<open>${index + 1}\<close> in a template string.\<close>

definition digit_char :: "nat \<Rightarrow> char" where
  "digit_char d = char_of (d + 48)"

fun string_of_nat :: "nat \<Rightarrow> string" where
  "string_of_nat n =
     (if 10 \<le> n then string_of_nat (n div 10) @ [digit_char (n mod 10)] else [digit_char n])"

declare string_of_nat.simps [simp del]

text \<open>\<^verbatim>\<open>participantIds.forEach((id, index) => validateUuid(id, `Participant ID ${index + 1}`))\<close>\<close>

fun validate_participantIds :: "(string \<Rightarrow> bool) \<Rightarrow> nat \<Rightarrow> uuid list \<Rightarrow> error + unit" where
  "validate_participantIds isValidUuid index [] = Inr ()"
| "validate_participantIds isValidUuid index (ident # rest) =
     (case validateUuid isValidUuid ident (''Participant ID '' @ string_of_nat (index + 1)) of
        Inl e \<Rightarrow> Inl e
      | Inr _ \<Rightarrow> validate_participantIds isValidUuid (index + 1) rest)"

text \<open>\<^verbatim>\<open>for (const participantId of participantIds) { if (participantId !== creatorId) ... }\<close>\<close>

fun add_other_participants :: "uuid \<Rightarrow> uuid \<Rightarrow> uuid list \<Rightarrow> database \<Rightarrow> (error + unit) \<times> database" where
  "add_other_participants chatId creatorId [] db = (Inr (), db)"
| "add_other_participants chatId creatorId (participantId # rest) db =
     (if participantId \<noteq> creatorId
      then (case insert_chat_participant chatId participantId ''member'' db of
              (Inl e, db1) \<Rightarrow> (Inl e, db1)
            | (Inr _, db1) \<Rightarrow> add_other_participants chatId creatorId rest db1)
      else add_other_participants chatId creatorId rest db)"

definition createGroupChat_callback ::
  "string \<Rightarrow> uuid \<Rightarrow> uuid list \<Rightarrow> database \<Rightarrow> (error + chat_room) \<times> database" where
  "createGroupChat_callback name creatorId participantIds db =
     (let chatId = next_uuid db in
      case insert_chat_room chatId (Some name) ''group'' creatorId (draw_uuid db) of
        (Inl e, db1) \<Rightarrow> (Inl e, db1)
      | (Inr chat, db1) \<Rightarrow>
          (case insert_chat_participant chatId creatorId ''creator'' db1 of
             (Inl e, db2) \<Rightarrow> (Inl e, db2)
           | (Inr _, db2) \<Rightarrow>
               (case add_other_participants chatId creatorId participantIds db2 of
                  (Inl e, db3) \<Rightarrow> (Inl e, db3)
                | (Inr _, db3) \<Rightarrow> (Inr chat, db3))))"

definition createGroupChat ::
  "(string \<Rightarrow> bool) \<Rightarrow> string \<Rightarrow> uuid \<Rightarrow> uuid list \<Rightarrow> database \<Rightarrow> (error + chat_room) \<times> database" where
  "createGroupChat isValidUuid name creatorId participantIds db =
     (case validateUuid isValidUuid creatorId ''Creator ID'' of
        Inl e \<Rightarrow> (Inl e, db)
      | Inr _ \<Rightarrow>
          (case validate_participantIds isValidUuid 0 participantIds of
             Inl e \<Rightarrow> (Inl e, db)
           | Inr _ \<Rightarrow>
               if 299 < length participantIds
               then (Inl (AppError ''Group chat cannot have more than 300 participants'' 400), db)
               else transaction (createGroupChat_callback name creatorId participantIds) db))"

section \<open>services/messageService.js\<close>

definition saveMessage ::
  "(string \<Rightarrow> bool) \<Rightarrow> uuid \<Rightarrow> uuid \<Rightarrow> string option \<Rightarrow> string \<Rightarrow> string option \<Rightarrow> database
     \<Rightarrow> (error + message) \<times> database" where
  "saveMessage isValidUuid chatId senderId content contentType mediaUrl db =
     (case validateUuid isValidUuid chatId ''Chat ID'' of
        Inl e \<Rightarrow> (Inl e, db)
      | Inr _ \<Rightarrow>
          (case validateUuid isValidUuid senderId ''Sender ID'' of
             Inl e \<Rightarrow> (Inl e, db)
           | Inr _ \<Rightarrow>
               (case isUserInChat chatId senderId db of
                  (Inl e, db1) \<Rightarrow> (Inl e, db1)
                | (Inr canSend, db1) \<Rightarrow>
                    if \<not> canSend then (Inl (AppError ''Not authorized to send message'' 403), db1)
                    else
                      (case insert_message chatId senderId content contentType mediaUrl db1 of
                         (Inl e, db2) \<Rightarrow> (Inl e, db2)
                       | (Inr row, db2) \<Rightarrow>
                           (case update_chat_room_updated_at chatId db2 of
                              (Inl e, db3) \<Rightarrow> (Inl e, db3)
                            | (Inr _, db3) \<Rightarrow> (Inr row, db3))))))"

text \<open>
  The result is \<^verbatim>\<open>result.rows[0]\<close>: the inserted row, or \<^verbatim>\<open>undefined\<close> (\<open>None\<close>) when the
  insert met a conflict and returned no row.
\<close>

definition addMessageReaction ::
  "(string \<Rightarrow> bool) \<Rightarrow> uuid \<Rightarrow> uuid \<Rightarrow> string \<Rightarrow> database
     \<Rightarrow> (error + message_reaction option) \<times> database" where
  "addMessageReaction isValidUuid messageId userId reaction db =
     (case validateUuid isValidUuid messageId ''Message ID'' of
        Inl e \<Rightarrow> (Inl e, db)
      | Inr _ \<Rightarrow>
          (case validateUuid isValidUuid userId ''User ID'' of
             Inl e \<Rightarrow> (Inl e, db)
           | Inr _ \<Rightarrow>
               (case select_message_chat_room messageId db of
                  (Inl e, db1) \<Rightarrow> (Inl e, db1)
                | (Inr [], db1) \<Rightarrow> (Inl (AppError ''Message not found'' 404), db1)
                | (Inr (chat_room_id # _), db1) \<Rightarrow>
                    (case isUserInChat chat_room_id userId db1 of
                       (Inl e, db2) \<Rightarrow> (Inl e, db2)
                     | (Inr canReact, db2) \<Rightarrow>
                         if \<not> canReact
                         then (Inl (AppError ''Not authorized to react to message'' 403), db2)
                         else
                           (case insert_reaction messageId userId reaction db2 of
                              (Inl e, db3) \<Rightarrow> (Inl e, db3)
                            | (Inr rows, db3) \<Rightarrow>
                                (Inr (case rows of [] \<Rightarrow> None | row # _ \<Rightarrow> Some row), db3))))))"

definition removeMessageReaction ::
  "(string \<Rightarrow> bool) \<Rightarrow> uuid \<Rightarrow> uuid \<Rightarrow> string \<Rightarrow> database \<Rightarrow> (error + unit) \<times> database" where
  "removeMessageReaction isValidUuid messageId userId reaction db =
     (case validateUuid isValidUuid messageId ''Message ID'' of
        Inl e \<Rightarrow> (Inl e, db)
      | Inr _ \<Rightarrow>
          (case validateUuid isValidUuid userId ''User ID'' of
             Inl e \<Rightarrow> (Inl e, db)
           | Inr _ \<Rightarrow> delete_reaction messageId userId reaction db))"

section \<open>socket.js\<close>

text \<open>
  \<open>markMessageAsRead\<close> of services/messageService.js validates its two identifiers and
  does nothing else (the body is a placeholder).
\<close>

definition markMessageAsRead :: "(string \<Rightarrow> bool) \<Rightarrow> uuid \<Rightarrow> uuid \<Rightarrow> error + unit" where
  "markMessageAsRead isValidUuid messageId userId =
     (case validateUuid isValidUuid messageId ''Message ID'' of
        Inl e \<Rightarrow> Inl e
      | Inr _ \<Rightarrow> validateUuid isValidUuid userId ''User ID'')"

type_synonym socket_id = string

text \<open>What the server sends, and to whom.\<close>

datatype payload =
    UserStatus uuid string        \<comment> \<open>\<^verbatim>\<open>'user:status', { userId, status }\<close>\<close>
  | MessageNew message            \<comment> \<open>\<^verbatim>\<open>'message:new', message\<close>\<close>
  | ErrorEvent string             \<comment> \<open>\<^verbatim>\<open>'error', { message }\<close>\<close>
  | TypingStart uuid string       \<comment> \<open>\<^verbatim>\<open>'typing:start', { userId, chatId }\<close>\<close>
  | TypingStop uuid string        \<comment> \<open>\<^verbatim>\<open>'typing:stop', { userId, chatId }\<close>\<close>
  | MessageRead uuid uuid string  \<comment> \<open>\<^verbatim>\<open>'message:read', { messageId, userId, chatId }\<close>\<close>

datatype target =
    Everyone                      \<comment> \<open>\<^verbatim>\<open>io.emit\<close>\<close>
  | Room string                   \<comment> \<open>\<^verbatim>\<open>io.to(room).emit\<close>\<close>
  | RoomExcept string socket_id   \<comment> \<open>\<^verbatim>\<open>socket.to(room).emit\<close>\<close>
  | Socket socket_id              \<comment> \<open>\<^verbatim>\<open>socket.emit\<close>\<close>

type_synonym emission = "target \<times> payload"

text \<open>
  The state the handlers work on: the \<^verbatim>\<open>activeUsers\<close> map of \<^verbatim>\<open>setupSocketHandlers\<close>,
  the sockets of the server with the user each one authenticated as (\<^verbatim>\<open>socket.user.id\<close>),
  the rooms each socket has joined, and the store.
\<close>

record server =
  activeUsers :: "uuid \<rightharpoonup> socket_id"
  connected :: "(socket_id \<times> uuid) list"
  rooms :: "(socket_id \<times> string) list"
  store :: database

text \<open>Delivery by socket.io: the connected sockets an emission reaches.\<close>

fun recipients :: "server \<Rightarrow> target \<Rightarrow> socket_id list" where
  "recipients srv Everyone = map fst (connected srv)"
| "recipients srv (Room r) = filter (\<lambda>s. (s, r) \<in> set (rooms srv)) (map fst (connected srv))"
| "recipients srv (RoomExcept r sender) =
     filter (\<lambda>s. (s, r) \<in> set (rooms srv) \<and> s \<noteq> sender) (map fst (connected srv))"
| "recipients srv (Socket s) = filter (\<lambda>s'. s' = s) (map fst (connected srv))"

definition socket_join :: "socket_id \<Rightarrow> string \<Rightarrow> server \<Rightarrow> server" where
  "socket_join s r srv = srv\<lparr>rooms := List.insert (s, r) (rooms srv)\<rparr>"

definition socket_leave :: "socket_id \<Rightarrow> string \<Rightarrow> server \<Rightarrow> server" where
  "socket_leave s r srv = srv\<lparr>rooms := removeAll (s, r) (rooms srv)\<rparr>"

text \<open>
  The payload of \<^verbatim>\<open>'message:new'\<close> as the client sends it. A field the client left out is
  \<open>None\<close>; \<^verbatim>\<open>contentType = 'text'\<close> and \<^verbatim>\<open>mediaUrl = null\<close> are the defaults of the
  destructuring.
\<close>

record message_data =
  d_chatId :: string
  d_content :: "string option"
  d_contentType :: "string option"
  d_mediaUrl :: "string option"

text \<open>The body of \<^verbatim>\<open>io.on('connection', ...)\<close>, for a socket already among the server's.\<close>

definition on_connection :: "socket_id \<Rightarrow> uuid \<Rightarrow> server \<Rightarrow> emission list \<times> server" where
  "on_connection s userId srv =
     ([(Everyone, UserStatus userId ''online'')],
      socket_join s (''user:'' @ userId) (srv\<lparr>activeUsers := (activeUsers srv)(userId \<mapsto> s)\<rparr>))"

definition on_chat_join :: "socket_id \<Rightarrow> uuid \<Rightarrow> string \<Rightarrow> server \<Rightarrow> emission list \<times> server" where
  "on_chat_join s userId chatId srv =
     (case isUserInChat chatId userId (store srv) of
        (Inl e, db1) \<Rightarrow> ([], srv\<lparr>store := db1\<rparr>)
      | (Inr canJoin, db1) \<Rightarrow>
          if canJoin then ([], socket_join s (''chat:'' @ chatId) (srv\<lparr>store := db1\<rparr>))
          else ([], srv\<lparr>store := db1\<rparr>))"

definition on_chat_leave :: "socket_id \<Rightarrow> uuid \<Rightarrow> string \<Rightarrow> server \<Rightarrow> emission list \<times> server" where
  "on_chat_leave s userId chatId srv = ([], socket_leave s (''chat:'' @ chatId) srv)"

definition on_message_new ::
  "(string \<Rightarrow> bool) \<Rightarrow> socket_id \<Rightarrow> uuid \<Rightarrow> message_data \<Rightarrow> server \<Rightarrow> emission list \<times> server" where
  "on_message_new isValidUuid s userId data srv =
     (let chatId = d_chatId data;
          content = d_content data;
          contentType = (case d_contentType data of None \<Rightarrow> ''text'' | Some t \<Rightarrow> t);
          mediaUrl = d_mediaUrl data
      in case isUserInChat chatId userId (store srv) of
           (Inl e, db1) \<Rightarrow> ([(Socket s, ErrorEvent ''Failed to send message'')], srv\<lparr>store := db1\<rparr>)
         | (Inr canSend, db1) \<Rightarrow>
             if \<not> canSend
             then ([(Socket s, ErrorEvent ''Not authorized to send message'')], srv\<lparr>store := db1\<rparr>)
             else
               (case saveMessage isValidUuid chatId userId content contentType mediaUrl db1 of
                  (Inl e, db2) \<Rightarrow>
                    ([(Socket s, ErrorEvent ''Failed to send message'')], srv\<lparr>store := db2\<rparr>)
                | (Inr message, db2) \<Rightarrow>
                    ([(Room (''chat:'' @ chatId), MessageNew message)], srv\<lparr>store := db2\<rparr>)))"

definition on_typing_start :: "socket_id \<Rightarrow> uuid \<Rightarrow> string \<Rightarrow> server \<Rightarrow> emission list \<times> server" where
  "on_typing_start s userId chatId srv =
     ([(RoomExcept (''chat:'' @ chatId) s, TypingStart userId chatId)], srv)"

definition on_typing_stop :: "socket_id \<Rightarrow> uuid \<Rightarrow> string \<Rightarrow> server \<Rightarrow> emission list \<times> server" where
  "on_typing_stop s userId chatId srv =
     ([(RoomExcept (''chat:'' @ chatId) s, TypingStop userId chatId)], srv)"

definition on_message_read ::
  "(string \<Rightarrow> bool) \<Rightarrow> socket_id \<Rightarrow> uuid \<Rightarrow> uuid \<Rightarrow> string \<Rightarrow> server \<Rightarrow> emission list \<times> server" where
  "on_message_read isValidUuid s userId messageId chatId srv =
     (case markMessageAsRead isValidUuid messageId userId of
        Inl e \<Rightarrow> ([], srv)
      | Inr _ \<Rightarrow> ([(Room (''chat:'' @ chatId), MessageRead messageId userId chatId)], srv))"

text \<open>The body of the \<^verbatim>\<open>'disconnect'\<close> handler, for a socket the server has already dropped.\<close>

definition on_disconnect :: "socket_id \<Rightarrow> uuid \<Rightarrow> server \<Rightarrow> emission list \<times> server" where
  "on_disconnect s userId srv =
     ([(Everyone, UserStatus userId ''offline'')],
      srv\<lparr>activeUsers := (activeUsers srv)(userId := None)\<rparr>)"

subsection \<open>The server as a machine over what reaches it\<close>

text \<open>
  Everything \<^verbatim>\<open>setupSocketHandlers\<close> registers is a handler of one of these inputs; it sets
  no timer and schedules nothing, so the server acts only when one of them arrives.
  A handshake reaches the \<^verbatim>\<open>'connection'\<close> handler only past the \<^verbatim>\<open>io.use\<close> check that
  \<^verbatim>\<open>socket.user?.id\<close> is truthy. On a disconnect socket.io takes the socket out of its
  rooms and out of the server's sockets before the handler runs. An event names the
  socket it arrives on; the handler's \<^verbatim>\<open>userId\<close> is the one the socket connected with.
  Socket ids are assigned by socket.io and never repeat among live sockets.
\<close>

datatype client_event =
    ChatJoin string
  | ChatLeave string
  | MessageNewEvent message_data
  | TypingStartEvent string
  | TypingStopEvent string
  | MessageReadEvent uuid string

datatype input =
    Connect socket_id uuid
  | Event socket_id client_event
  | Disconnect socket_id

definition user_of :: "server \<Rightarrow> socket_id \<Rightarrow> uuid option" where
  "user_of srv s = map_of (connected srv) s"

fun handle :: "(string \<Rightarrow> bool) \<Rightarrow> socket_id \<Rightarrow> uuid \<Rightarrow> client_event \<Rightarrow> server \<Rightarrow> emission list \<times> server" where
  "handle isValidUuid s userId (ChatJoin chatId) srv = on_chat_join s userId chatId srv"
| "handle isValidUuid s userId (ChatLeave chatId) srv = on_chat_leave s userId chatId srv"
| "handle isValidUuid s userId (MessageNewEvent data) srv = on_message_new isValidUuid s userId data srv"
| "handle isValidUuid s userId (TypingStartEvent chatId) srv = on_typing_start s userId chatId srv"
| "handle isValidUuid s userId (TypingStopEvent chatId) srv = on_typing_stop s userId chatId srv"
| "handle isValidUuid s userId (MessageReadEvent messageId chatId) srv =
     on_message_read isValidUuid s userId messageId chatId srv"

fun step :: "(string \<Rightarrow> bool) \<Rightarrow> input \<Rightarrow> server \<Rightarrow> emission list \<times> server" where
  "step isValidUuid (Connect s userId) srv =
     (if userId = [] \<or> s \<in> set (map fst (connected srv)) then ([], srv)
      else on_connection s userId (srv\<lparr>connected := connected srv @ [(s, userId)]\<rparr>))"
| "step isValidUuid (Event s ev) srv =
     (case user_of srv s of
        None \<Rightarrow> ([], srv)
      | Some userId \<Rightarrow> handle isValidUuid s userId ev srv)"
| "step isValidUuid (Disconnect s) srv =
     (case user_of srv s of
        None \<Rightarrow> ([], srv)
      | Some userId \<Rightarrow>
          on_disconnect s userId
            (srv\<lparr>connected := filter (\<lambda>c. fst c \<noteq> s) (connected srv),
                 rooms := filter (\<lambda>m. fst m \<noteq> s) (rooms srv)\<rparr>))"

text \<open>A run: every emission of every step, in order, and the state at the end.\<close>

fun run :: "(string \<Rightarrow> bool) \<Rightarrow> input list \<Rightarrow> server \<Rightarrow> emission list \<times> server" where
  "run isValidUuid [] srv = ([], srv)"
| "run isValidUuid (i # rest) srv =
     (case step isValidUuid i srv of
        (out, srv1) \<Rightarrow> (case run isValidUuid rest srv1 of (out', srv2) \<Rightarrow> (out @ out', srv2)))"

section \<open>A small deployment, for the worked cases\<close>

text \<open>
  Three users; one group room that alice created and bob is a member of, holding one
  message; carol is in no room. \<open>uuid_shape\<close> stands in for the \<^verbatim>\<open>uuid\<close> package's
  \<^verbatim>\<open>validate\<close> where a concrete check is needed.
\<close>

definition uuid_shape :: "string \<Rightarrow> bool" where
  "uuid_shape s = (length s = 36)"

definition alice :: uuid where
  "alice = ''a0000000-0000-4000-8000-00000000000a''"

definition bob :: uuid where
  "bob = ''b0000000-0000-4000-8000-00000000000b''"

definition carol :: uuid where
  "carol = ''c0000000-0000-4000-8000-00000000000c''"

definition team_room :: uuid where
  "team_room = ''d0000000-0000-4000-8000-00000000000d''"

definition first_message :: uuid where
  "first_message = ''e0000000-0000-4000-8000-00000000000e''"

definition no_such_message :: uuid where
  "no_such_message = ''e0000000-0000-4000-8000-0000000000ff''"

definition fresh_uuids :: "nat \<Rightarrow> uuid" where
  "fresh_uuids n =
     (if n = 0 then ''f0000000-0000-4000-8000-000000000000''
      else ''f0000000-0000-4000-8000-000000000001'')"

definition demo_db :: database where
  "demo_db =
     \<lparr>users = [alice, bob, carol],
      chat_rooms = [\<lparr>cr_id = team_room, cr_name = Some ''Test Group'', cr_type = ''group'',
                     cr_creator_id = alice, cr_created_at = 1, cr_updated_at = 2\<rparr>],
      chat_participants =
        [\<lparr>cp_chat_room_id = team_room, cp_user_id = alice, cp_role = ''creator'', cp_joined_at = 1\<rparr>,
         \<lparr>cp_chat_room_id = team_room, cp_user_id = bob, cp_role = ''member'', cp_joined_at = 1\<rparr>],
      messages =
        [\<lparr>m_id = first_message, m_chat_room_id = team_room, m_sender_id = alice,
          m_content = ''Hello everyone!'', m_content_type = ''text'', m_media_url = None,
          m_created_at = 2, m_updated_at = 2, m_is_edited = False, m_is_deleted = False\<rparr>],
      message_reactions = [],
      current_timestamp = 7,
      uuid_source = fresh_uuids,
      uuid_drawn = 0,
      faults = []\<rparr>"

text \<open>The same store when the third driver call to come will fail.\<close>

definition demo_db_third_call_fails :: database where
  "demo_db_third_call_fails = demo_db\<lparr>faults := [False, False, True]\<rparr>"

text \<open>alice is connected on socket \<open>s1\<close> and has joined the room; bob is connected on \<open>s2\<close>.\<close>

definition demo_server :: server where
  "demo_server =
     \<lparr>activeUsers = [alice \<mapsto> ''s1'', bob \<mapsto> ''s2''],
      connected = [(''s1'', alice), (''s2'', bob)],
      rooms = [(''s1'', ''user:'' @ alice), (''s1'', ''chat:'' @ team_room),
               (''s2'', ''user:'' @ bob)],
      store = demo_db\<rparr>"

text \<open>alice on two devices, \<open>s1\<close> and then \<open>s3\<close>.\<close>

definition two_device_server :: server where
  "two_device_server =
     \<lparr>activeUsers = [alice \<mapsto> ''s3''],
      connected = [(''s1'', alice), (''s3'', alice)],
      rooms = [(''s1'', ''user:'' @ alice), (''s3'', ''user:'' @ alice)],
      store = demo_db\<rparr>"

text \<open>carol has connected too, on \<open>s3\<close>.\<close>

definition carol_server :: server where
  "carol_server =
     \<lparr>activeUsers = [alice \<mapsto> ''s1'', bob \<mapsto> ''s2'', carol \<mapsto> ''s3''],
      connected = [(''s1'', alice), (''s2'', bob), (''s3'', carol)],
      rooms = [(''s1'', ''user:'' @ alice), (''s1'', ''chat:'' @ team_room),
               (''s2'', ''user:'' @ bob), (''s3'', ''user:'' @ carol)],
      store = demo_db\<rparr>"

text \<open>The \<^verbatim>\<open>message:new\<close> payload \<^verbatim>\<open>{ chatId: team_room, content: 'hi' }\<close> and the row it becomes.\<close>

definition hi_data :: message_data where
  "hi_data = \<lparr>d_chatId = team_room, d_content = Some ''hi'', d_contentType = None, d_mediaUrl = None\<rparr>"

definition hi_row :: message where
  "hi_row =
     \<lparr>m_id = fresh_uuids 0, m_chat_room_id = team_room, m_sender_id = alice,
      m_content = ''hi'', m_content_type = ''text'', m_media_url = None,
      m_created_at = 7, m_updated_at = 7, m_is_edited = False, m_is_deleted = False\<rparr>"

text \<open>
  The rooms that \<open>createGroupChat\<close> for alice, bob and carol and \<open>createDirectChat\<close> for
  alice and carol return in the deployment.
\<close>

definition friends_chat :: chat_room where
  "friends_chat =
     \<lparr>cr_id = fresh_uuids 0, cr_name = Some ''Friends'', cr_type = ''group'', cr_creator_id = alice,
      cr_created_at = 7, cr_updated_at = 7\<rparr>"

definition alice_carol_chat :: chat_room where
  "alice_carol_chat =
     \<lparr>cr_id = fresh_uuids 0, cr_name = None, cr_type = ''direct'', cr_creator_id = alice,
      cr_created_at = 7, cr_updated_at = 7\<rparr>"

text \<open>
  Two users share a conversation when some room has a participant row of each: the
  audience the specification gives a presence event.
\<close>

definition shares_conversation :: "database \<Rightarrow> uuid \<Rightarrow> uuid \<Rightarrow> bool" where
  "shares_conversation db u v =
     list_ex (\<lambda>r. is_participant db (cr_id r) u \<and> is_participant db (cr_id r) v) (chat_rooms db)"

text \<open>A reaction symbol of fifty characters followed by one space.\<close>

definition padded_symbol :: string where
  "padded_symbol = replicate 50 (CHR ''x'') @ '' ''"

section \<open>Facts about the store\<close>

lemmas deployment_defs =
  alice_def bob_def carol_def team_room_def first_message_def no_such_message_def
  fresh_uuids_def uuid_shape_def demo_db_def demo_db_third_call_fails_def

lemmas server_defs =
  demo_server_def two_device_server_def carol_server_def hi_data_def hi_row_def

lemmas sqlstate_defs =
  connection_failure_def not_null_violation_def foreign_key_violation_def
  unique_violation_def string_data_right_truncation_def

lemma varchar_fits: "length s \<le> n \<Longrightarrow> varchar n s = Some s"
  by (simp add: varchar_def)

lemma fault_free_no_fault: "fault_free db \<Longrightarrow> \<not> io_fault db"
  by (cases "faults db") (auto simp: fault_free_def io_fault_def)

lemma fault_free_io_step: "fault_free db \<Longrightarrow> fault_free (io_step db)"
  by (cases "faults db") (auto simp: fault_free_def io_step_def)

lemma filter_nonempty_list_ex: "(filter P xs \<noteq> []) = list_ex P xs"
  by (simp add: filter_empty_conv list_ex_iff)

lemma isUserInChat_fault_free:
  "\<not> io_fault db \<Longrightarrow> isUserInChat chatId userId db = (Inr (is_participant db chatId userId), io_step db)"
  by (simp add: isUserInChat_def select_participant_def is_participant_def filter_nonempty_list_ex)

lemma isUserInChat_result:
  "isUserInChat chatId userId db = (r, db') \<Longrightarrow>
     db' = io_step db \<and> (r = Inl connection_failure \<or> r = Inr (is_participant db chatId userId))"
  by (auto simp: isUserInChat_def select_participant_def is_participant_def filter_nonempty_list_ex
      split: if_splits)

lemma io_step_tables [simp]:
  "users (io_step db) = users db" "chat_rooms (io_step db) = chat_rooms db"
  "chat_participants (io_step db) = chat_participants db" "messages (io_step db) = messages db"
  "message_reactions (io_step db) = message_reactions db"
  "current_timestamp (io_step db) = current_timestamp db"
  "uuid_source (io_step db) = uuid_source db" "uuid_drawn (io_step db) = uuid_drawn db"
  by (simp_all add: io_step_def)

lemma next_uuid_io_step [simp]: "next_uuid (io_step db) = next_uuid db"
  by (simp add: next_uuid_def)

lemma is_participant_io_step [simp]: "is_participant (io_step db) = is_participant db"
  by (simp add: is_participant_def fun_eq_iff)

lemma insert_message_Inr:
  assumes "insert_message chatId senderId content contentType mediaUrl db = (Inr row, db')"
  shows "content = Some (m_content row) \<and> m_id row = next_uuid db \<and> m_chat_room_id row = chatId
       \<and> m_sender_id row = senderId \<and> varchar 20 contentType = Some (m_content_type row)
       \<and> m_media_url row = mediaUrl
       \<and> m_created_at row = current_timestamp db
       \<and> m_id row \<notin> set (map m_id (messages db))
       \<and> messages db' = messages db @ [row]"
  using assms
  by (auto simp: insert_message_def Let_def split: if_splits option.splits)

lemma update_chat_room_updated_at_messages:
  "update_chat_room_updated_at chatId db = (r, db') \<Longrightarrow> messages db' = messages db"
  by (auto simp: update_chat_room_updated_at_def split: if_splits)

lemma saveMessage_Inr:
  assumes "saveMessage isValidUuid chatId senderId content contentType mediaUrl db = (Inr row, db')"
  shows "content = Some (m_content row) \<and> m_id row = next_uuid db \<and> m_chat_room_id row = chatId
       \<and> m_sender_id row = senderId \<and> varchar 20 contentType = Some (m_content_type row)
       \<and> m_media_url row = mediaUrl
       \<and> m_created_at row = current_timestamp db
       \<and> m_id row \<notin> set (map m_id (messages db))
       \<and> messages db' = messages db @ [row]"
proof -
  from assms obtain db1 db2 where
    member: "isUserInChat chatId senderId db = (Inr True, db1)" and
    ins: "insert_message chatId senderId content contentType mediaUrl db1 = (Inr row, db2)" and
    upd: "update_chat_room_updated_at chatId db2 = (Inr (), db')"
    by (auto simp: saveMessage_def split: sum.splits prod.splits if_splits)
  from isUserInChat_result [OF member] have db1: "db1 = io_step db" by simp
  from update_chat_room_updated_at_messages [OF upd] have "messages db' = messages db2" .
  with insert_message_Inr [OF ins] db1 show ?thesis by auto
qed

section \<open>The claims\<close>

text \<open>
  C3 (the message insert and the update of the room's \<open>updated_at\<close> are one transaction:
  both take effect or neither). \<open>saveMessage\<close> sends the two statements on the pool, one
  after the other, outside \<open>transaction\<close>. In the deployment where the membership query and
  the insert go through and the update then fails, \<open>saveMessage\<close> throws, the message row is
  in the table and the room's \<open>updated_at\<close> is still 2 while the clock reads 7.
\<close>

theorem saveMessage_update_fails_after_insert:
  "fst (saveMessage uuid_shape team_room alice (Some ''hi'') ''text'' None demo_db_third_call_fails)
     = Inl connection_failure
   \<and> map m_content (messages demo_db_third_call_fails) = [''Hello everyone!'']
   \<and> map m_content (messages (snd (saveMessage uuid_shape team_room alice (Some ''hi'') ''text'' None
        demo_db_third_call_fails))) = [''Hello everyone!'', ''hi'']
   \<and> map cr_updated_at (chat_rooms demo_db_third_call_fails) = [2]
   \<and> map cr_updated_at (chat_rooms (snd (saveMessage uuid_shape team_room alice (Some ''hi'') ''text'' None
        demo_db_third_call_fails))) = [2]
   \<and> current_timestamp demo_db_third_call_fails = 7"
  by (simp add: saveMessage_def validateUuid_def isUserInChat_def select_participant_def
      insert_message_def varchar_def update_chat_room_updated_at_def io_fault_def io_step_def
      next_uuid_def draw_uuid_def Let_def deployment_defs)

lemma validateUuid_ok:
  "ident \<noteq> [] \<Longrightarrow> isValidUuid ident \<Longrightarrow> validateUuid isValidUuid ident fieldName = Inr ()"
  by (simp add: validateUuid_def)

lemma insert_message_no_AppError:
  "insert_message chatId senderId content contentType mediaUrl db \<noteq> (Inl (AppError msg code), db')"
  by (auto simp: insert_message_def Let_def sqlstate_defs split: if_splits option.splits)

lemma update_chat_room_updated_at_no_AppError:
  "update_chat_room_updated_at chatId db \<noteq> (Inl (AppError msg code), db')"
  by (auto simp: update_chat_room_updated_at_def sqlstate_defs split: if_splits)

lemma isUserInChat_no_AppError:
  "isUserInChat chatId userId db \<noteq> (Inl (AppError msg code), db')"
  by (auto simp: isUserInChat_def select_participant_def sqlstate_defs split: if_splits)

lemma saveMessage_bad_request:
  assumes "saveMessage isValidUuid chatId senderId content contentType mediaUrl db
             = (Inl (AppError msg 400), db')"
  shows "db' = db \<and> (chatId = [] \<or> \<not> isValidUuid chatId \<or> senderId = [] \<or> \<not> isValidUuid senderId)"
proof (cases "validateUuid isValidUuid chatId ''Chat ID''")
  case (Inl e)
  with assms show ?thesis
    by (auto simp: saveMessage_def validateUuid_def split: if_splits)
next
  case chat_ok: (Inr u)
  show ?thesis
  proof (cases "validateUuid isValidUuid senderId ''Sender ID''")
    case (Inl e)
    with assms chat_ok show ?thesis
      by (auto simp: saveMessage_def validateUuid_def split: if_splits)
  next
    case (Inr v)
    with assms chat_ok have False
      using isUserInChat_no_AppError insert_message_no_AppError
        update_chat_room_updated_at_no_AppError
      by (auto simp: saveMessage_def split: sum.splits prod.splits if_splits)
    then show ?thesis ..
  qed
qed

lemma saveMessage_bad_identifier:
  assumes "chatId = [] \<or> \<not> isValidUuid chatId \<or> senderId = [] \<or> \<not> isValidUuid senderId"
  shows "\<exists>msg. saveMessage isValidUuid chatId senderId content contentType mediaUrl db
                 = (Inl (AppError msg 400), db)"
  using assms by (auto simp: saveMessage_def validateUuid_def)

lemma saveMessage_succeeds:
  assumes chat: "chatId \<noteq> []" "isValidUuid chatId"
      and sender: "senderId \<noteq> []" "isValidUuid senderId"
      and member: "is_participant db chatId senderId"
      and refs: "chatId \<in> set (map cr_id (chat_rooms db))" "senderId \<in> set (users db)"
      and type: "varchar 20 contentType = Some content_type"
      and fresh: "next_uuid db \<notin> set (map m_id (messages db))"
      and io: "fault_free db"
  shows "\<exists>row db'.
           saveMessage isValidUuid chatId senderId (Some body) contentType mediaUrl db = (Inr row, db')
         \<and> m_content row = body \<and> m_content_type row = content_type \<and> m_media_url row = mediaUrl
         \<and> messages db' = messages db @ [row]"
proof -
  let ?db1 = "io_step db"
  have io1: "\<not> io_fault db" and ff1: "fault_free ?db1"
    using io by (simp_all add: fault_free_no_fault fault_free_io_step)
  have io2: "\<not> io_fault ?db1" using ff1 by (rule fault_free_no_fault)
  have member_q: "isUserInChat chatId senderId db = (Inr True, ?db1)"
    using isUserInChat_fault_free [OF io1] member by simp
  obtain row db2 where
    ins: "insert_message chatId senderId (Some body) contentType mediaUrl ?db1 = (Inr row, db2)" and
    db2: "db2 = (draw_uuid (io_step ?db1))\<lparr>messages := messages db @ [row]\<rparr>" and
    row: "m_content row = body" "m_content_type row = content_type" "m_media_url row = mediaUrl"
    using io2 refs type fresh by (simp add: insert_message_def Let_def)
  have "fault_free db2"
    using fault_free_io_step [OF ff1] by (simp add: db2 fault_free_def draw_uuid_def)
  then have io3: "\<not> io_fault db2" by (rule fault_free_no_fault)
  obtain db3 where
    upd: "update_chat_room_updated_at chatId db2 = (Inr (), db3)" and "messages db3 = messages db2"
    using io3 by (simp add: update_chat_room_updated_at_def)
  then have "messages db3 = messages db @ [row]" by (simp add: db2)
  moreover have "saveMessage isValidUuid chatId senderId (Some body) contentType mediaUrl db = (Inr row, db3)"
    using chat sender member_q ins upd by (simp add: saveMessage_def validateUuid_ok)
  ultimately show ?thesis using row by blast
qed

text \<open>
  C4 (\<open>saveMessage\<close> fails with a validation error when the content is empty for type
  text, or the media reference is missing for type image, and then creates no row).
  As stated the claim fails: in the deployment, alice's empty text message and her image
  message without a media reference are both saved.
\<close>

theorem saveMessage_empty_content_counterexample:
  "(\<exists>row. fst (saveMessage uuid_shape team_room alice (Some '''') ''text'' None demo_db) = Inr row
          \<and> m_content row = '''' \<and> m_content_type row = ''text'')
   \<and> length (messages (snd (saveMessage uuid_shape team_room alice (Some '''') ''text'' None demo_db)))
       = Suc (length (messages demo_db))
   \<and> (\<exists>row. fst (saveMessage uuid_shape team_room alice (Some ''photo'') ''image'' None demo_db) = Inr row
          \<and> m_content_type row = ''image'' \<and> m_media_url row = None)
   \<and> length (messages (snd (saveMessage uuid_shape team_room alice (Some ''photo'') ''image'' None demo_db)))
       = Suc (length (messages demo_db))"
  by (simp add: saveMessage_def validateUuid_def isUserInChat_def select_participant_def
      insert_message_def varchar_def update_chat_room_updated_at_def io_fault_def io_step_def
      next_uuid_def draw_uuid_def Let_def deployment_defs)

text \<open>
  C4, amended: \<open>saveMessage\<close> checks neither the content nor the media reference. It fails
  with a validation error (status 400) exactly when the room identifier or the sender
  identifier is empty or not a valid UUID, and then nothing is written. For valid
  identifiers, a sender who is a participant, an existing room and user, a content type
  that the \<^verbatim>\<open>VARCHAR(20)\<close> column takes, a fresh generated id and no driver fault, it saves
  the message whatever the content text (the empty text included) and whatever the media
  reference (none included), and the new row is appended to \<open>messages\<close>.
\<close>

theorem saveMessage_validates_identifiers_only:
  "((\<exists>msg. saveMessage isValidUuid chatId senderId content contentType mediaUrl db
              = (Inl (AppError msg 400), db'))
      = (db' = db \<and> (chatId = [] \<or> \<not> isValidUuid chatId \<or> senderId = [] \<or> \<not> isValidUuid senderId)))
   \<and> (chatId \<noteq> [] \<and> isValidUuid chatId \<and> senderId \<noteq> [] \<and> isValidUuid senderId
        \<and> is_participant db chatId senderId
        \<and> chatId \<in> set (map cr_id (chat_rooms db)) \<and> senderId \<in> set (users db)
        \<and> varchar 20 contentType = Some content_type
        \<and> next_uuid db \<notin> set (map m_id (messages db)) \<and> fault_free db
      \<longrightarrow> (\<exists>row db''.
             saveMessage isValidUuid chatId senderId (Some body) contentType mediaUrl db = (Inr row, db'')
           \<and> m_content row = body \<and> m_content_type row = content_type \<and> m_media_url row = mediaUrl
           \<and> messages db'' = messages db @ [row]))"
proof (rule conjI)
  show "(\<exists>msg. saveMessage isValidUuid chatId senderId content contentType mediaUrl db
              = (Inl (AppError msg 400), db'))
      = (db' = db \<and> (chatId = [] \<or> \<not> isValidUuid chatId \<or> senderId = [] \<or> \<not> isValidUuid senderId))"
  proof (rule iffI)
    assume "\<exists>msg. saveMessage isValidUuid chatId senderId content contentType mediaUrl db
                = (Inl (AppError msg 400), db')"
    then show "db' = db
        \<and> (chatId = [] \<or> \<not> isValidUuid chatId \<or> senderId = [] \<or> \<not> isValidUuid senderId)"
      using saveMessage_bad_request by blast
  next
    assume bad: "db' = db
        \<and> (chatId = [] \<or> \<not> isValidUuid chatId \<or> senderId = [] \<or> \<not> isValidUuid senderId)"
    then have "chatId = [] \<or> \<not> isValidUuid chatId \<or> senderId = [] \<or> \<not> isValidUuid senderId"
      by simp
    from saveMessage_bad_identifier [OF this] bad
    show "\<exists>msg. saveMessage isValidUuid chatId senderId content contentType mediaUrl db
                = (Inl (AppError msg 400), db')"
      by simp
  qed
next
  show "chatId \<noteq> [] \<and> isValidUuid chatId \<and> senderId \<noteq> [] \<and> isValidUuid senderId
        \<and> is_participant db chatId senderId
        \<and> chatId \<in> set (map cr_id (chat_rooms db)) \<and> senderId \<in> set (users db)
        \<and> varchar 20 contentType = Some content_type
        \<and> next_uuid db \<notin> set (map m_id (messages db)) \<and> fault_free db
      \<longrightarrow> (\<exists>row db''.
             saveMessage isValidUuid chatId senderId (Some body) contentType mediaUrl db = (Inr row, db'')
           \<and> m_content row = body \<and> m_content_type row = content_type \<and> m_media_url row = mediaUrl
           \<and> messages db'' = messages db @ [row])"
    using saveMessage_succeeds [of chatId isValidUuid senderId db contentType content_type] by blast
qed

theorem saveMessage_validates_identifiers_only_witness:
  "\<not> uuid_shape ''nope''
   \<and> (\<exists>msg. saveMessage uuid_shape team_room ''nope'' (Some ''hi'') ''text'' None demo_db
              = (Inl (AppError msg 400), demo_db))
   \<and> team_room \<noteq> [] \<and> uuid_shape team_room \<and> alice \<noteq> [] \<and> uuid_shape alice
   \<and> is_participant demo_db team_room alice
   \<and> team_room \<in> set (map cr_id (chat_rooms demo_db)) \<and> alice \<in> set (users demo_db)
   \<and> varchar 20 ''image'' = Some ''image''
   \<and> next_uuid demo_db \<notin> set (map m_id (messages demo_db))
   \<and> fault_free demo_db
   \<and> (\<exists>row db''.
         saveMessage uuid_shape team_room alice (Some '''') ''image'' None demo_db = (Inr row, db'')
       \<and> m_content row = '''' \<and> m_content_type row = ''image'' \<and> m_media_url row = None
       \<and> messages db'' = messages demo_db @ [row])"
proof -
  have bad: "\<not> uuid_shape ''nope''"
    by (simp add: uuid_shape_def)
  have pre: "team_room \<noteq> [] \<and> uuid_shape team_room \<and> alice \<noteq> [] \<and> uuid_shape alice
   \<and> is_participant demo_db team_room alice
   \<and> team_room \<in> set (map cr_id (chat_rooms demo_db)) \<and> alice \<in> set (users demo_db)
   \<and> varchar 20 ''image'' = Some ''image''
   \<and> next_uuid demo_db \<notin> set (map m_id (messages demo_db))
   \<and> fault_free demo_db"
    by (simp add: is_participant_def next_uuid_def fault_free_def varchar_def deployment_defs)
  from saveMessage_validates_identifiers_only
         [where isValidUuid = uuid_shape and chatId = team_room and senderId = "''nope''"
            and content = "Some ''hi''" and contentType = "''text''" and mediaUrl = None
            and db = demo_db and db' = demo_db]
       saveMessage_validates_identifiers_only
         [where isValidUuid = uuid_shape and chatId = team_room and senderId = alice
            and contentType = "''image''" and content_type = "''image''" and mediaUrl = None
            and db = demo_db and body = "''''"]
       bad pre
  show ?thesis by blast
qed

lemma on_message_new_broadcast:
  assumes run: "on_message_new isValidUuid s userId data srv = (out, srv')"
      and sent: "(tgt, MessageNew m) \<in> set out"
  shows "\<exists>db1. isUserInChat (d_chatId data) userId (store srv) = (Inr True, db1)
           \<and> saveMessage isValidUuid (d_chatId data) userId (d_content data)
                (case d_contentType data of None \<Rightarrow> ''text'' | Some t \<Rightarrow> t) (d_mediaUrl data) db1
              = (Inr m, store srv')
           \<and> out = [(Room (''chat:'' @ d_chatId data), MessageNew m)]"
  using assms
  by (auto simp: on_message_new_def Let_def split: sum.splits prod.splits if_splits)

lemma on_message_new_saved:
  assumes member: "isUserInChat (d_chatId data) userId (store srv) = (Inr True, db1)"
      and saved: "saveMessage isValidUuid (d_chatId data) userId (d_content data)
                (case d_contentType data of None \<Rightarrow> ''text'' | Some t \<Rightarrow> t) (d_mediaUrl data) db1
              = (Inr m, db2)"
  shows "on_message_new isValidUuid s userId data srv
           = ([(Room (''chat:'' @ d_chatId data), MessageNew m)], srv\<lparr>store := db2\<rparr>)"
  using assms by (simp add: on_message_new_def Let_def)

lemma on_message_new_not_saved:
  assumes member: "isUserInChat (d_chatId data) userId (store srv) = (Inr True, db1)"
      and failed: "saveMessage isValidUuid (d_chatId data) userId (d_content data)
                (case d_contentType data of None \<Rightarrow> ''text'' | Some t \<Rightarrow> t) (d_mediaUrl data) db1
              = (Inl e, db2)"
  shows "on_message_new isValidUuid s userId data srv
           = ([(Socket s, ErrorEvent ''Failed to send message'')], srv\<lparr>store := db2\<rparr>)"
  using assms by (simp add: on_message_new_def Let_def)

text \<open>
  C1 (what a successful \<^verbatim>\<open>message:new\<close> broadcasts to the room is the row \<open>saveMessage\<close>
  returned, with the id and timestamp the store assigned, and it is emitted only once
  \<open>saveMessage\<close> has returned it). Whenever the handler emits a \<open>MessageNew\<close>, it is the
  only emission, it goes to the room of the chat, and its payload is the row that
  \<open>saveMessage\<close> returned: a row of the \<open>messages\<close> table that was not there before,
  whose id is the one the store generated and whose timestamp is the store's clock, sent by
  the socket's authenticated user. Conversely a row that \<open>saveMessage\<close> returns is what
  the handler broadcasts, and when \<open>saveMessage\<close> fails the only emission is an error
  event to the sender's socket.
\<close>

theorem message_new_broadcasts_persisted_row:
  assumes "on_message_new isValidUuid s userId data srv = (out, srv')"
  shows "(\<forall>tgt m. (tgt, MessageNew m) \<in> set out \<longrightarrow>
            out = [(Room (''chat:'' @ d_chatId data), MessageNew m)]
          \<and> (\<exists>db1. isUserInChat (d_chatId data) userId (store srv) = (Inr True, db1)
                \<and> saveMessage isValidUuid (d_chatId data) userId (d_content data)
                     (case d_contentType data of None \<Rightarrow> ''text'' | Some t \<Rightarrow> t) (d_mediaUrl data) db1
                   = (Inr m, store srv'))
          \<and> m \<in> set (messages (store srv')) \<and> m \<notin> set (messages (store srv))
          \<and> m_id m = next_uuid (store srv) \<and> m_created_at m = current_timestamp (store srv)
          \<and> m_sender_id m = userId \<and> m_chat_room_id m = d_chatId data
          \<and> d_content data = Some (m_content m))
       \<and> (\<forall>db1 db2 r. isUserInChat (d_chatId data) userId (store srv) = (Inr True, db1)
             \<and> saveMessage isValidUuid (d_chatId data) userId (d_content data)
                  (case d_contentType data of None \<Rightarrow> ''text'' | Some t \<Rightarrow> t) (d_mediaUrl data) db1
                = (r, db2) \<longrightarrow>
             out = (case r of Inr m \<Rightarrow> [(Room (''chat:'' @ d_chatId data), MessageNew m)]
                    | Inl e \<Rightarrow> [(Socket s, ErrorEvent ''Failed to send message'')]))"
proof (intro conjI allI impI)
  fix tgt m
  assume sent: "(tgt, MessageNew m) \<in> set out"
  from on_message_new_broadcast [OF assms sent] obtain db1 where
    member: "isUserInChat (d_chatId data) userId (store srv) = (Inr True, db1)" and
    saved: "saveMessage isValidUuid (d_chatId data) userId (d_content data)
              (case d_contentType data of None \<Rightarrow> ''text'' | Some t \<Rightarrow> t) (d_mediaUrl data) db1
            = (Inr m, store srv')" and
    out: "out = [(Room (''chat:'' @ d_chatId data), MessageNew m)]"
    by blast
  from isUserInChat_result [OF member] have db1: "db1 = io_step (store srv)" by simp
  note row = saveMessage_Inr [OF saved]
  show "out = [(Room (''chat:'' @ d_chatId data), MessageNew m)]" by (rule out)
  show "\<exists>db1. isUserInChat (d_chatId data) userId (store srv) = (Inr True, db1)
          \<and> saveMessage isValidUuid (d_chatId data) userId (d_content data)
               (case d_contentType data of None \<Rightarrow> ''text'' | Some t \<Rightarrow> t) (d_mediaUrl data) db1
             = (Inr m, store srv')"
    using member saved by blast
  show "m \<in> set (messages (store srv'))" using row by simp
  show "m \<notin> set (messages (store srv))" using row db1 by auto
  show "m_id m = next_uuid (store srv)" using row db1 by simp
  show "m_created_at m = current_timestamp (store srv)" using row db1 by simp
  show "m_sender_id m = userId" using row by simp
  show "m_chat_room_id m = d_chatId data" using row by simp
  show "d_content data = Some (m_content m)" using row by simp
next
  fix db1 db2 r
  assume h: "isUserInChat (d_chatId data) userId (store srv) = (Inr True, db1)
             \<and> saveMessage isValidUuid (d_chatId data) userId (d_content data)
                  (case d_contentType data of None \<Rightarrow> ''text'' | Some t \<Rightarrow> t) (d_mediaUrl data) db1
                = (r, db2)"
  show "out = (case r of Inr m \<Rightarrow> [(Room (''chat:'' @ d_chatId data), MessageNew m)]
                    | Inl e \<Rightarrow> [(Socket s, ErrorEvent ''Failed to send message'')])"
  proof (cases r)
    case (Inl e)
    with h on_message_new_not_saved [of data userId srv db1 isValidUuid e db2 s] assms
    show ?thesis by simp
  next
    case (Inr m)
    with h on_message_new_saved [of data userId srv db1 isValidUuid m db2 s] assms
    show ?thesis by simp
  qed
qed

lemmas handler_eval =
  saveMessage_def validateUuid_def isUserInChat_def select_participant_def
  insert_message_def varchar_def update_chat_room_updated_at_def io_fault_def io_step_def
  next_uuid_def draw_uuid_def Let_def

theorem message_new_broadcasts_persisted_row_witness:
  "(Room (''chat:'' @ team_room), MessageNew hi_row)
     \<in> set (fst (on_message_new uuid_shape ''s1'' alice hi_data demo_server))
   \<and> fst (on_message_new uuid_shape ''s1'' alice hi_data demo_server)
       = [(Room (''chat:'' @ d_chatId hi_data), MessageNew hi_row)]
   \<and> hi_row \<in> set (messages (store (snd (on_message_new uuid_shape ''s1'' alice hi_data demo_server))))
   \<and> hi_row \<notin> set (messages (store demo_server))
   \<and> m_id hi_row = next_uuid (store demo_server)
   \<and> m_created_at hi_row = current_timestamp (store demo_server)
   \<and> m_sender_id hi_row = alice"
proof -
  have sent: "(Room (''chat:'' @ team_room), MessageNew hi_row)
     \<in> set (fst (on_message_new uuid_shape ''s1'' alice hi_data demo_server))"
    by (simp add: on_message_new_def handler_eval server_defs deployment_defs)
  from message_new_broadcasts_persisted_row [OF surjective_pairing] sent
  show ?thesis by blast
qed

subsection \<open>Joining a room\<close>

lemma on_chat_join_not_member:
  assumes "\<not> is_participant (store srv) chatId userId"
  shows "on_chat_join s userId chatId srv = ([], srv\<lparr>store := io_step (store srv)\<rparr>)"
proof -
  obtain r db1 where q: "isUserInChat chatId userId (store srv) = (r, db1)"
    by (cases "isUserInChat chatId userId (store srv)")
  from isUserInChat_result [OF q] assms
  have "db1 = io_step (store srv)" and "r = Inl connection_failure \<or> r = Inr False"
    by simp_all
  with q show ?thesis by (auto simp: on_chat_join_def)
qed

text \<open>
  C2 (a \<^verbatim>\<open>chat:join\<close> by a user who is not a participant fails with an authorization
  error that is sent to the joining socket as an error event, and the socket is not
  subscribed). As stated the claim fails: carol, on \<open>s3\<close>, is no participant of the team
  room, and her \<^verbatim>\<open>chat:join\<close> makes the server emit nothing at all, so no error event
  reaches \<open>s3\<close>.
\<close>

theorem chat_join_error_event_counterexample:
  "\<not> is_participant (store carol_server) team_room carol
   \<and> user_of carol_server ''s3'' = Some carol
   \<and> fst (step uuid_shape (Event ''s3'' (ChatJoin team_room)) carol_server) = []"
  by (simp add: user_of_def on_chat_join_def isUserInChat_def select_participant_def
      is_participant_def io_fault_def io_step_def server_defs deployment_defs)

text \<open>
  C2, amended: a \<^verbatim>\<open>chat:join\<close> by a user who is not a participant of the room is dropped
  in silence. The handler emits nothing, neither an error event to the joining socket nor
  anything to anyone else, and it leaves the sockets and their rooms as they were. So a
  socket that was not in the room before is not in it afterwards, and is reached by no
  emission to that room.
\<close>

theorem chat_join_by_non_member_is_dropped:
  assumes "\<not> is_participant (store srv) chatId userId"
  shows "fst (on_chat_join s userId chatId srv) = []
       \<and> rooms (snd (on_chat_join s userId chatId srv)) = rooms srv
       \<and> connected (snd (on_chat_join s userId chatId srv)) = connected srv
       \<and> ((s, ''chat:'' @ chatId) \<notin> set (rooms srv) \<longrightarrow>
            s \<notin> set (recipients (snd (on_chat_join s userId chatId srv)) (Room (''chat:'' @ chatId)))
          \<and> (\<forall>sender. s \<notin> set (recipients (snd (on_chat_join s userId chatId srv))
                                 (RoomExcept (''chat:'' @ chatId) sender))))"
  by (simp add: on_chat_join_not_member [OF assms])

theorem chat_join_by_non_member_is_dropped_witness:
  "\<not> is_participant (store carol_server) team_room carol
   \<and> (''s3'', ''chat:'' @ team_room) \<notin> set (rooms carol_server)
   \<and> fst (on_chat_join ''s3'' carol team_room carol_server) = []
   \<and> rooms (snd (on_chat_join ''s3'' carol team_room carol_server)) = rooms carol_server
   \<and> ''s3'' \<notin> set (recipients (snd (on_chat_join ''s3'' carol team_room carol_server))
                       (Room (''chat:'' @ team_room)))"
proof -
  have outsider: "\<not> is_participant (store carol_server) team_room carol"
    by (simp add: is_participant_def server_defs deployment_defs)
  have unsubscribed: "(''s3'', ''chat:'' @ team_room) \<notin> set (rooms carol_server)"
    by (simp add: server_defs deployment_defs)
  from chat_join_by_non_member_is_dropped [OF outsider, of "''s3''"] outsider unsubscribed
  show ?thesis by blast
qed

subsection \<open>Presence\<close>

text \<open>
  C5 (the presence event of a first connection and of a last disconnection goes only to
  those who share a conversation with the user, not to every connected client). As stated
  the claim fails: carol shares no conversation with alice or bob, yet when she connects on
  \<open>s3\<close> her online event reaches \<open>s1\<close> and \<open>s2\<close>, and when she disconnects her offline
  event does.
\<close>

theorem presence_scope_counterexample:
  "\<not> shares_conversation (store demo_server) carol alice
   \<and> \<not> shares_conversation (store demo_server) carol bob
   \<and> user_of demo_server ''s1'' = Some alice \<and> user_of demo_server ''s2'' = Some bob
   \<and> fst (step uuid_shape (Connect ''s3'' carol) demo_server) = [(Everyone, UserStatus carol ''online'')]
   \<and> recipients (snd (step uuid_shape (Connect ''s3'' carol) demo_server)) Everyone
       = [''s1'', ''s2'', ''s3'']
   \<and> fst (step uuid_shape (Disconnect ''s3'') carol_server) = [(Everyone, UserStatus carol ''offline'')]
   \<and> recipients (snd (step uuid_shape (Disconnect ''s3'') carol_server)) Everyone = [''s1'', ''s2'']"
  by (simp add: shares_conversation_def is_participant_def user_of_def on_connection_def
      on_disconnect_def socket_join_def server_defs deployment_defs)

text \<open>
  C5, amended: presence is broadcast to everyone. Each accepted connection emits the
  online event of its user with \<^verbatim>\<open>io.emit\<close>, which reaches every socket of the server, the
  new one included; each disconnection of a connected socket emits the offline event of its
  user the same way, to every socket that remains. No emission is scoped by shared
  conversations.
\<close>

theorem presence_is_broadcast_to_everyone:
  "(userId \<noteq> [] \<and> s \<notin> set (map fst (connected srv)) \<longrightarrow>
      fst (step isValidUuid (Connect s userId) srv) = [(Everyone, UserStatus userId ''online'')]
    \<and> recipients (snd (step isValidUuid (Connect s userId) srv)) Everyone
        = map fst (connected srv) @ [s])
   \<and> (user_of srv s = Some userId \<longrightarrow>
      fst (step isValidUuid (Disconnect s) srv) = [(Everyone, UserStatus userId ''offline'')]
    \<and> recipients (snd (step isValidUuid (Disconnect s) srv)) Everyone
        = filter (\<lambda>s'. s' \<noteq> s) (map fst (connected srv)))"
  by (auto simp: on_connection_def on_disconnect_def socket_join_def filter_map comp_def)

theorem presence_is_broadcast_to_everyone_witness:
  "carol \<noteq> [] \<and> ''s3'' \<notin> set (map fst (connected demo_server))
   \<and> fst (step uuid_shape (Connect ''s3'' carol) demo_server) = [(Everyone, UserStatus carol ''online'')]
   \<and> recipients (snd (step uuid_shape (Connect ''s3'' carol) demo_server)) Everyone
       = map fst (connected demo_server) @ [''s3'']
   \<and> user_of carol_server ''s3'' = Some carol
   \<and> fst (step uuid_shape (Disconnect ''s3'') carol_server) = [(Everyone, UserStatus carol ''offline'')]
   \<and> recipients (snd (step uuid_shape (Disconnect ''s3'') carol_server)) Everyone
       = filter (\<lambda>s'. s' \<noteq> ''s3'') (map fst (connected carol_server))"
proof -
  have arrives: "carol \<noteq> [] \<and> ''s3'' \<notin> set (map fst (connected demo_server))"
    by (simp add: server_defs deployment_defs)
  have live: "user_of carol_server ''s3'' = Some carol"
    by (simp add: user_of_def server_defs)
  from presence_is_broadcast_to_everyone [of carol "''s3''" demo_server uuid_shape]
       presence_is_broadcast_to_everyone [of carol "''s3''" carol_server uuid_shape]
       arrives live
  show ?thesis by blast
qed

text \<open>
  C6 (with several connections of one user, closing one of them while another is still
  live emits no offline event; only the last one does). As stated the claim fails: alice
  is connected on \<open>s1\<close> and \<open>s3\<close>; when \<open>s1\<close> disconnects the server announces her
  offline to everyone and forgets her in \<open>activeUsers\<close>, while \<open>s3\<close> is still connected.
\<close>

theorem disconnect_one_of_two_counterexample:
  "user_of two_device_server ''s1'' = Some alice \<and> user_of two_device_server ''s3'' = Some alice
   \<and> fst (step uuid_shape (Disconnect ''s1'') two_device_server) = [(Everyone, UserStatus alice ''offline'')]
   \<and> connected (snd (step uuid_shape (Disconnect ''s1'') two_device_server)) = [(''s3'', alice)]
   \<and> activeUsers (snd (step uuid_shape (Disconnect ''s1'') two_device_server)) alice = None"
  by (simp add: user_of_def on_disconnect_def server_defs deployment_defs)

text \<open>
  C6, amended: the server keeps one socket id per user and no count of connections.
  Every disconnection of a connected socket emits the offline event of its user, to
  everyone, and removes the user from \<open>activeUsers\<close>, whether or not other sockets of the
  same user stay connected; those sockets stay among the server's.
\<close>

theorem every_disconnect_announces_offline:
  assumes "user_of srv s = Some userId"
  shows "fst (step isValidUuid (Disconnect s) srv) = [(Everyone, UserStatus userId ''offline'')]
       \<and> activeUsers (snd (step isValidUuid (Disconnect s) srv)) userId = None
       \<and> connected (snd (step isValidUuid (Disconnect s) srv)) = filter (\<lambda>c. fst c \<noteq> s) (connected srv)"
  using assms by (simp add: on_disconnect_def)

theorem every_disconnect_announces_offline_witness:
  "user_of two_device_server ''s1'' = Some alice
   \<and> fst (step uuid_shape (Disconnect ''s1'') two_device_server) = [(Everyone, UserStatus alice ''offline'')]
   \<and> activeUsers (snd (step uuid_shape (Disconnect ''s1'') two_device_server)) alice = None
   \<and> connected (snd (step uuid_shape (Disconnect ''s1'') two_device_server))
       = filter (\<lambda>c. fst c \<noteq> ''s1'') (connected two_device_server)"
proof -
  have live: "user_of two_device_server ''s1'' = Some alice"
    by (simp add: user_of_def server_defs)
  from every_disconnect_announces_offline [OF live, of uuid_shape] live
  show ?thesis by blast
qed

subsection \<open>Typing\<close>

lemma handle_typing_stop:
  assumes "handle isValidUuid s userId ev srv = (out, srv')"
      and "(tgt, TypingStop u c) \<in> set out"
  shows "ev = TypingStopEvent c"
  using assms
  by (cases ev)
     (auto simp: on_chat_join_def on_chat_leave_def on_message_new_def on_typing_start_def
        on_typing_stop_def on_message_read_def Let_def
        split: sum.splits prod.splits if_splits)

lemma step_typing_stop:
  assumes "step isValidUuid i srv = (out, srv')"
      and "(tgt, TypingStop u c) \<in> set out"
  shows "\<exists>s. i = Event s (TypingStopEvent c)"
proof (cases i)
  case (Connect s userId)
  with assms show ?thesis by (auto simp: on_connection_def split: if_splits)
next
  case (Event s ev)
  with assms show ?thesis by (auto split: option.splits dest: handle_typing_stop)
next
  case (Disconnect s)
  with assms show ?thesis by (auto simp: on_disconnect_def split: option.splits)
qed

lemma run_typing_stop:
  assumes "(tgt, TypingStop u c) \<in> set (fst (run isValidUuid inputs srv))"
  shows "\<exists>s. Event s (TypingStopEvent c) \<in> set inputs"
  using assms
proof (induction inputs arbitrary: srv)
  case Nil
  then show ?case by simp
next
  case (Cons i rest)
  obtain out srv1 where st: "step isValidUuid i srv = (out, srv1)"
    by (cases "step isValidUuid i srv")
  obtain out' srv2 where rn: "run isValidUuid rest srv1 = (out', srv2)"
    by (cases "run isValidUuid rest srv1")
  from Cons.prems st rn have "(tgt, TypingStop u c) \<in> set out \<or> (tgt, TypingStop u c) \<in> set out'"
    by simp
  then show ?case
  proof
    assume "(tgt, TypingStop u c) \<in> set out"
    from step_typing_stop [OF st this] show ?thesis by auto
  next
    assume "(tgt, TypingStop u c) \<in> set out'"
    with rn have "(tgt, TypingStop u c) \<in> set (fst (run isValidUuid rest srv1))" by simp
    from Cons.IH [OF this] show ?thesis by auto
  qed
qed

text \<open>
  C7 (after a \<^verbatim>\<open>typing:start\<close> that no \<^verbatim>\<open>typing:stop\<close> follows, the server by itself
  emits the stop to the room once a fixed time has passed). As stated the claim fails:
  alice's \<^verbatim>\<open>typing:start\<close> makes the server relay the start and nothing else, and leaves
  the server exactly as it was, with nothing pending that could emit a stop later.
\<close>

theorem typing_start_sets_no_expiry_counterexample:
  "run uuid_shape [Event ''s1'' (TypingStartEvent team_room)] demo_server
     = ([(RoomExcept (''chat:'' @ team_room) ''s1'', TypingStart alice team_room)], demo_server)
   \<and> \<not> (\<exists>tgt u c. (tgt, TypingStop u c)
          \<in> set (fst (run uuid_shape [Event ''s1'' (TypingStartEvent team_room)] demo_server)))"
  by (simp add: user_of_def on_typing_start_def server_defs)

text \<open>
  C7, amended: the server keeps no typing state and no timer. A \<^verbatim>\<open>typing:start\<close> is
  relayed to the other sockets of the room and changes nothing in the server; a
  \<^verbatim>\<open>typing:stop\<close> is emitted only as the relay of a client's own \<^verbatim>\<open>typing:stop\<close> for that
  chat: in every run, each emitted stop has such an event among the inputs.
\<close>

theorem typing_stop_only_relayed:
  "on_typing_start s userId chatId srv
     = ([(RoomExcept (''chat:'' @ chatId) s, TypingStart userId chatId)], srv)
   \<and> on_typing_stop s userId chatId srv
     = ([(RoomExcept (''chat:'' @ chatId) s, TypingStop userId chatId)], srv)
   \<and> ((tgt, TypingStop u c) \<in> set (fst (run isValidUuid inputs srv))
        \<longrightarrow> (\<exists>s'. Event s' (TypingStopEvent c) \<in> set inputs))"
  by (auto simp: on_typing_start_def on_typing_stop_def dest: run_typing_stop)

theorem typing_stop_only_relayed_witness:
  "(RoomExcept (''chat:'' @ team_room) ''s1'', TypingStop alice team_room)
      \<in> set (fst (run uuid_shape [Event ''s1'' (TypingStartEvent team_room),
                                  Event ''s1'' (TypingStopEvent team_room)] demo_server))
   \<and> (\<exists>s'. Event s' (TypingStopEvent team_room)
          \<in> set [Event ''s1'' (TypingStartEvent team_room), Event ''s1'' (TypingStopEvent team_room)])"
proof -
  have emitted: "(RoomExcept (''chat:'' @ team_room) ''s1'', TypingStop alice team_room)
      \<in> set (fst (run uuid_shape [Event ''s1'' (TypingStartEvent team_room),
                                  Event ''s1'' (TypingStopEvent team_room)] demo_server))"
    by (simp add: user_of_def on_typing_start_def on_typing_stop_def server_defs)
  from typing_stop_only_relayed
    [of "''s1''" alice team_room demo_server "RoomExcept (''chat:'' @ team_room) ''s1''" alice
        team_room uuid_shape
        "[Event ''s1'' (TypingStartEvent team_room), Event ''s1'' (TypingStopEvent team_room)]"]
    emitted
  show ?thesis by blast
qed

subsection \<open>Reactions\<close>

lemma distinct_key_once:
  "distinct (map f xs) \<Longrightarrow> k \<in> set (map f xs) \<Longrightarrow> length (filter (\<lambda>x. f x = k) xs) = 1"
proof (induction xs)
  case Nil
  then show ?case by simp
next
  case (Cons x xs)
  show ?case
  proof (cases "f x = k")
    case True
    with Cons.prems have "k \<notin> f ` set xs" by auto
    then have "filter (\<lambda>x. f x = k) xs = []" by (auto simp: filter_empty_conv)
    with True show ?thesis by simp
  next
    case False
    with Cons show ?thesis by auto
  qed
qed

lemma insert_reaction_Inr:
  assumes "insert_reaction messageId userId reaction db = (Inr rows, db')"
  shows "\<exists>symbol. varchar 50 reaction = Some symbol
       \<and> (messageId, userId, symbol) \<in> set (map reaction_key (message_reactions db'))
       \<and> (distinct (map reaction_key (message_reactions db))
            \<longrightarrow> distinct (map reaction_key (message_reactions db')))
       \<and> messages db' = messages db \<and> chat_participants db' = chat_participants db
       \<and> users db' = users db"
  using assms
  by (auto simp: insert_reaction_def Let_def reaction_key_def split: if_splits option.splits)

lemma select_message_chat_room_Inr:
  assumes "select_message_chat_room messageId db = (Inr cs, db')"
  shows "cs = map m_chat_room_id (filter (\<lambda>m. m_id m = messageId) (messages db)) \<and> db' = io_step db"
  using assms by (auto simp: select_message_chat_room_def split: if_splits)

text \<open>What a successful \<open>addMessageReaction\<close> went through, and what it leaves.\<close>

lemma addMessageReaction_Inr:
  assumes "addMessageReaction isValidUuid messageId userId reaction db = (Inr r, db')"
  shows "messageId \<noteq> [] \<and> isValidUuid messageId \<and> userId \<noteq> [] \<and> isValidUuid userId
       \<and> (\<exists>c cs. map m_chat_room_id (filter (\<lambda>m. m_id m = messageId) (messages db)) = c # cs
                 \<and> is_participant db c userId)
       \<and> (\<exists>symbol. varchar 50 reaction = Some symbol
             \<and> (messageId, userId, symbol) \<in> set (map reaction_key (message_reactions db')))
       \<and> (distinct (map reaction_key (message_reactions db))
            \<longrightarrow> distinct (map reaction_key (message_reactions db')))
       \<and> messages db' = messages db \<and> chat_participants db' = chat_participants db"
proof -
  have ids: "messageId \<noteq> [] \<and> isValidUuid messageId \<and> userId \<noteq> [] \<and> isValidUuid userId"
    using assms
    by (auto simp: addMessageReaction_def validateUuid_def split: if_splits)
  then have v: "validateUuid isValidUuid messageId ''Message ID'' = Inr ()"
               "validateUuid isValidUuid userId ''User ID'' = Inr ()"
    by (simp_all add: validateUuid_ok)
  from assms v obtain c cs db1 db2 rows where
    sel: "select_message_chat_room messageId db = (Inr (c # cs), db1)" and
    mem: "isUserInChat c userId db1 = (Inr True, db2)" and
    ins: "insert_reaction messageId userId reaction db2 = (Inr rows, db')"
    by (auto simp: addMessageReaction_def split: sum.splits prod.splits list.splits if_splits)
  from select_message_chat_room_Inr [OF sel]
  have cs: "map m_chat_room_id (filter (\<lambda>m. m_id m = messageId) (messages db)) = c # cs"
    and db1: "db1 = io_step db" by simp_all
  from isUserInChat_result [OF mem] db1
  have db2: "db2 = io_step (io_step db)" and member: "is_participant db c userId"
    by (auto simp: connection_failure_def)
  from insert_reaction_Inr [OF ins] db2 ids cs member show ?thesis by auto
qed

text \<open>Adding a reaction whose stored form is already in the table, with no driver fault.\<close>

lemma addMessageReaction_stored:
  assumes ids: "messageId \<noteq> []" "isValidUuid messageId" "userId \<noteq> []" "isValidUuid userId"
      and msg: "map m_chat_room_id (filter (\<lambda>m. m_id m = messageId) (messages db)) = c # cs"
      and member: "is_participant db c userId"
      and sym: "varchar 50 reaction = Some symbol"
      and stored: "(messageId, userId, symbol) \<in> set (map reaction_key (message_reactions db))"
      and io: "fault_free db"
  shows "addMessageReaction isValidUuid messageId userId reaction db
           = (Inr None, io_step (io_step (io_step db)))"
proof -
  let ?db1 = "io_step db" and ?db2 = "io_step (io_step db)"
  have ff: "fault_free ?db1" "fault_free ?db2"
    using io by (simp_all add: fault_free_io_step)
  have io0: "\<not> io_fault db" and io1: "\<not> io_fault ?db1" and io2: "\<not> io_fault ?db2"
    using io ff by (simp_all add: fault_free_no_fault)
  have sel: "select_message_chat_room messageId db = (Inr (c # cs), ?db1)"
    using io0 msg by (simp add: select_message_chat_room_def)
  have mem: "isUserInChat c userId ?db1 = (Inr True, ?db2)"
    using isUserInChat_fault_free [OF io1] member by simp
  have ins: "insert_reaction messageId userId reaction ?db2 = (Inr [], io_step ?db2)"
    using io2 sym stored by (simp add: insert_reaction_def)
  show ?thesis
    using ids sel mem ins by (simp add: addMessageReaction_def validateUuid_ok)
qed

text \<open>
  C8 (adding the same reaction twice leaves exactly one stored row, and the second call
  succeeds as a no-op). On a table that respects its primary key, once a first
  \<open>addMessageReaction\<close> has succeeded, a second one with the same message, user and
  symbol, met by no driver fault, succeeds too, returns no row, leaves the table as the
  first call left it, and the table holds exactly one row for the message, the user and
  the symbol as the column stores it: the symbol itself when it has at most 50 characters,
  its first 50 characters when only spaces follow them.
\<close>

theorem addMessageReaction_idempotent:
  assumes pk: "distinct (map reaction_key (message_reactions db))"
      and first: "addMessageReaction isValidUuid messageId userId reaction db = (Inr r, db1)"
      and io: "fault_free db1"
  shows "\<exists>db2 symbol. addMessageReaction isValidUuid messageId userId reaction db1 = (Inr None, db2)
           \<and> message_reactions db2 = message_reactions db1
           \<and> varchar 50 reaction = Some symbol
           \<and> (length reaction \<le> 50 \<longrightarrow> symbol = reaction)
           \<and> length (filter (\<lambda>row. reaction_key row = (messageId, userId, symbol))
                       (message_reactions db2)) = 1"
proof -
  note f = addMessageReaction_Inr [OF first]
  from f obtain c cs where
    msg: "map m_chat_room_id (filter (\<lambda>m. m_id m = messageId) (messages db)) = c # cs" and
    member: "is_participant db c userId"
    by auto
  from f obtain symbol where
    sym: "varchar 50 reaction = Some symbol" and
    stored: "(messageId, userId, symbol) \<in> set (map reaction_key (message_reactions db1))"
    by auto
  have msg1: "map m_chat_room_id (filter (\<lambda>m. m_id m = messageId) (messages db1)) = c # cs"
    using msg f by simp
  have member1: "is_participant db1 c userId"
    using member f by (simp add: is_participant_def)
  have again: "addMessageReaction isValidUuid messageId userId reaction db1
                 = (Inr None, io_step (io_step (io_step db1)))"
    using f by (intro addMessageReaction_stored [OF _ _ _ _ msg1 member1 sym stored io]) simp_all
  have "distinct (map reaction_key (message_reactions db1))" using f pk by blast
  from distinct_key_once [OF this stored]
  have once: "length (filter (\<lambda>row. reaction_key row = (messageId, userId, symbol))
                  (message_reactions db1)) = 1" .
  have short: "length reaction \<le> 50 \<longrightarrow> symbol = reaction"
    using sym by (auto simp: varchar_fits)
  from again sym short once show ?thesis by simp
qed

theorem addMessageReaction_idempotent_witness:
  "distinct (map reaction_key (message_reactions demo_db))
   \<and> length padded_symbol = 51
   \<and> (\<exists>row. fst (addMessageReaction uuid_shape first_message bob padded_symbol demo_db) = Inr (Some row)
         \<and> mr_reaction row = take 50 padded_symbol)
   \<and> fault_free (snd (addMessageReaction uuid_shape first_message bob padded_symbol demo_db))
   \<and> (\<exists>db2 symbol. addMessageReaction uuid_shape first_message bob padded_symbol
               (snd (addMessageReaction uuid_shape first_message bob padded_symbol demo_db))
             = (Inr None, db2)
           \<and> message_reactions db2
               = message_reactions (snd (addMessageReaction uuid_shape first_message bob padded_symbol demo_db))
           \<and> varchar 50 padded_symbol = Some symbol
           \<and> length (filter (\<lambda>row. reaction_key row = (first_message, bob, symbol))
                       (message_reactions db2)) = 1)"
proof -
  have pk: "distinct (map reaction_key (message_reactions demo_db))"
    by (simp add: demo_db_def)
  have len: "length padded_symbol = 51"
    by (simp add: padded_symbol_def)
  have cut: "varchar 50 padded_symbol = Some (take 50 padded_symbol)"
    by (simp add: varchar_def padded_symbol_def)
  have first: "\<exists>row. fst (addMessageReaction uuid_shape first_message bob padded_symbol demo_db)
                        = Inr (Some row) \<and> mr_reaction row = take 50 padded_symbol"
    by (simp add: cut addMessageReaction_def validateUuid_def select_message_chat_room_def
        isUserInChat_def select_participant_def insert_reaction_def reaction_key_def
        io_fault_def io_step_def Let_def deployment_defs)
  have io: "fault_free (snd (addMessageReaction uuid_shape first_message bob padded_symbol demo_db))"
    by (simp add: cut addMessageReaction_def validateUuid_def select_message_chat_room_def
        isUserInChat_def select_participant_def insert_reaction_def reaction_key_def
        io_fault_def io_step_def fault_free_def Let_def deployment_defs)
  from first obtain row where
    "addMessageReaction uuid_shape first_message bob padded_symbol demo_db
       = (Inr (Some row), snd (addMessageReaction uuid_shape first_message bob padded_symbol demo_db))"
    by (metis prod.collapse)
  from addMessageReaction_idempotent [OF pk this io] pk len first io
  show ?thesis by blast
qed

text \<open>
  C10 (\<open>removeMessageReaction\<close> checks neither membership nor the existence of the message
  or of the reaction: with valid identifiers it succeeds, and deleting an absent reaction
  is a no-op; \<open>addMessageReaction\<close> checks both). With valid identifiers and a delete that
  the driver carries out, \<open>removeMessageReaction\<close> returns normally whatever the tables
  hold, removes the rows of the triple and nothing else, and so leaves the table as it was
  when no such row is stored. On the same identifiers \<open>addMessageReaction\<close> fails with 404
  when the message does not exist and with 403 when the user is no participant of its room.
\<close>

theorem removeMessageReaction_checks_nothing:
  assumes "messageId \<noteq> []" "isValidUuid messageId" "userId \<noteq> []" "isValidUuid userId"
  shows "(\<not> io_fault db \<longrightarrow>
            removeMessageReaction isValidUuid messageId userId reaction db
              = (Inr (), (io_step db)\<lparr>message_reactions :=
                   filter (\<lambda>row. reaction_key row \<noteq> (messageId, userId, reaction))
                     (message_reactions db)\<rparr>)
          \<and> ((messageId, userId, reaction) \<notin> set (map reaction_key (message_reactions db)) \<longrightarrow>
               message_reactions (snd (removeMessageReaction isValidUuid messageId userId reaction db))
                 = message_reactions db))
       \<and> (\<not> io_fault db \<and> messageId \<notin> set (map m_id (messages db)) \<longrightarrow>
            fst (addMessageReaction isValidUuid messageId userId reaction db)
              = Inl (AppError ''Message not found'' 404))
       \<and> (\<not> io_fault db \<and> \<not> io_fault (io_step db)
            \<and> map m_chat_room_id (filter (\<lambda>m. m_id m = messageId) (messages db)) = c # cs
            \<and> \<not> is_participant db c userId \<longrightarrow>
            fst (addMessageReaction isValidUuid messageId userId reaction db)
              = Inl (AppError ''Not authorized to react to message'' 403))"
proof (intro conjI impI)
  assume io: "\<not> io_fault db"
  show "removeMessageReaction isValidUuid messageId userId reaction db
              = (Inr (), (io_step db)\<lparr>message_reactions :=
                   filter (\<lambda>row. reaction_key row \<noteq> (messageId, userId, reaction))
                     (message_reactions db)\<rparr>)"
    using assms io by (simp add: removeMessageReaction_def validateUuid_ok delete_reaction_def)
  assume "(messageId, userId, reaction) \<notin> set (map reaction_key (message_reactions db))"
  then have "filter (\<lambda>row. reaction_key row \<noteq> (messageId, userId, reaction)) (message_reactions db)
               = message_reactions db"
    by (auto simp: filter_id_conv image_iff)
  then show "message_reactions (snd (removeMessageReaction isValidUuid messageId userId reaction db))
                 = message_reactions db"
    using assms io by (simp add: removeMessageReaction_def validateUuid_ok delete_reaction_def)
next
  assume h: "\<not> io_fault db \<and> messageId \<notin> set (map m_id (messages db))"
  then have "filter (\<lambda>m. m_id m = messageId) (messages db) = []"
    by (auto simp: filter_empty_conv)
  with h show "fst (addMessageReaction isValidUuid messageId userId reaction db)
              = Inl (AppError ''Message not found'' 404)"
    using assms by (simp add: addMessageReaction_def validateUuid_ok select_message_chat_room_def)
next
  assume h: "\<not> io_fault db \<and> \<not> io_fault (io_step db)
            \<and> map m_chat_room_id (filter (\<lambda>m. m_id m = messageId) (messages db)) = c # cs
            \<and> \<not> is_participant db c userId"
  then have sel: "select_message_chat_room messageId db = (Inr (c # cs), io_step db)"
    by (simp add: select_message_chat_room_def)
  from h have mem: "isUserInChat c userId (io_step db) = (Inr False, io_step (io_step db))"
    using isUserInChat_fault_free [of "io_step db" c userId] by simp
  show "fst (addMessageReaction isValidUuid messageId userId reaction db)
              = Inl (AppError ''Not authorized to react to message'' 403)"
    using assms sel mem by (simp add: addMessageReaction_def validateUuid_ok)
qed

theorem removeMessageReaction_checks_nothing_witness:
  "no_such_message \<noteq> [] \<and> uuid_shape no_such_message \<and> carol \<noteq> [] \<and> uuid_shape carol
   \<and> \<not> io_fault demo_db \<and> \<not> io_fault (io_step demo_db)
   \<and> no_such_message \<notin> set (map m_id (messages demo_db))
   \<and> (no_such_message, carol, ''+1'') \<notin> set (map reaction_key (message_reactions demo_db))
   \<and> fst (removeMessageReaction uuid_shape no_such_message carol ''+1'' demo_db) = Inr ()
   \<and> message_reactions (snd (removeMessageReaction uuid_shape no_such_message carol ''+1'' demo_db))
       = message_reactions demo_db
   \<and> fst (addMessageReaction uuid_shape no_such_message carol ''+1'' demo_db)
       = Inl (AppError ''Message not found'' 404)"
proof -
  have pre: "no_such_message \<noteq> []" "uuid_shape no_such_message" "carol \<noteq> []" "uuid_shape carol"
    by (simp_all add: deployment_defs)
  have io: "\<not> io_fault demo_db" "\<not> io_fault (io_step demo_db)"
    by (simp_all add: io_fault_def io_step_def demo_db_def)
  have absent: "no_such_message \<notin> set (map m_id (messages demo_db))"
    "(no_such_message, carol, ''+1'') \<notin> set (map reaction_key (message_reactions demo_db))"
    by (simp_all add: deployment_defs)
  from removeMessageReaction_checks_nothing [OF pre, of demo_db "''+1''"] pre io absent
  show ?thesis by (simp add: demo_db_def)
qed

subsection \<open>Creating conversations\<close>

lemma rollback_and_throw_Inl: "fst (rollback_and_throw e snapshot db) \<noteq> Inr r"
  by (auto simp: rollback_and_throw_def client_query_control_def split: if_splits)

text \<open>A transaction returns a result only when its callback did and the commit went through.\<close>

lemma transaction_Inr:
  assumes "transaction callback db = (Inr result, db')"
  shows "\<exists>db2. callback (io_step (io_step db)) = (Inr result, db2) \<and> db' = io_step db2"
proof -
  have no: "\<And>e d. rollback_and_throw e db d \<noteq> (Inr result, db')"
    using rollback_and_throw_Inl by (metis fst_conv)
  from assms show ?thesis
    by (auto simp: transaction_def getClient_def client_query_control_def no
        split: if_splits sum.splits prod.splits)
qed

lemma insert_chat_participant_Inr:
  assumes "insert_chat_participant chatId userId role db = (Inr u, db')"
      and "length role \<le> 20"
  shows "chat_participants db' = chat_participants db @
           [\<lparr>cp_chat_room_id = chatId, cp_user_id = userId, cp_role = role,
             cp_joined_at = current_timestamp db\<rparr>]
       \<and> chat_rooms db' = chat_rooms db"
  using assms by (auto simp: insert_chat_participant_def varchar_fits split: if_splits)

lemma insert_chat_room_Inr:
  assumes "insert_chat_room chatId name type creatorId db = (Inr chat, db')"
      and "length type \<le> 20"
  shows "cr_id chat = chatId \<and> cr_type chat = type \<and> cr_creator_id chat = creatorId
       \<and> chatId \<notin> set (map cr_id (chat_rooms db))
       \<and> chat_participants db' = chat_participants db"
  using assms
  by (auto simp: insert_chat_room_def varchar_fits Let_def split: if_splits option.splits)

lemma add_other_participants_keeps:
  assumes "add_other_participants chatId creatorId participantIds db = (Inr u, db')"
      and "p \<in> set (chat_participants db)"
  shows "p \<in> set (chat_participants db')"
  using assms
proof (induction participantIds arbitrary: db)
  case Nil
  then show ?case by simp
next
  case (Cons participantId rest)
  show ?case
  proof (cases "participantId = creatorId")
    case True
    with Cons show ?thesis by simp
  next
    case False
    with Cons.prems(1) obtain db1 where
      ins: "insert_chat_participant chatId participantId ''member'' db = (Inr (), db1)" and
      rest: "add_other_participants chatId creatorId rest db1 = (Inr u, db')"
      by (auto split: sum.splits prod.splits)
    from insert_chat_participant_Inr [OF ins] Cons.prems(2)
    have "p \<in> set (chat_participants db1)" by simp
    from Cons.IH [OF rest this] show ?thesis .
  qed
qed

lemma createGroupChat_creator:
  assumes "createGroupChat isValidUuid name creatorId participantIds db = (Inr chat, db')"
  shows "\<lparr>cp_chat_room_id = cr_id chat, cp_user_id = creatorId, cp_role = ''creator'',
          cp_joined_at = current_timestamp db\<rparr> \<in> set (chat_participants db')
       \<and> cr_type chat = ''group''"
proof -
  from assms have tx: "transaction (createGroupChat_callback name creatorId participantIds) db
                         = (Inr chat, db')"
    by (auto simp: createGroupChat_def split: sum.splits if_splits)
  let ?d = "io_step (io_step db)"
  from transaction_Inr [OF tx] obtain db4 where
    cb: "createGroupChat_callback name creatorId participantIds ?d = (Inr chat, db4)" and
    db': "db' = io_step db4"
    by blast
  from cb obtain db1 db2 where
    room: "insert_chat_room (next_uuid ?d) (Some name) ''group'' creatorId (draw_uuid ?d) = (Inr chat, db1)" and
    creator: "insert_chat_participant (next_uuid ?d) creatorId ''creator'' db1 = (Inr (), db2)" and
    others: "add_other_participants (next_uuid ?d) creatorId participantIds db2 = (Inr (), db4)"
    by (auto simp: createGroupChat_callback_def Let_def split: sum.splits prod.splits)
  from room have clock1: "current_timestamp db1 = current_timestamp db"
    by (auto simp: insert_chat_room_def Let_def draw_uuid_def split: if_splits option.splits)
  from insert_chat_room_Inr [OF room] have chat: "cr_id chat = next_uuid ?d" "cr_type chat = ''group''"
    by simp_all
  from insert_chat_participant_Inr [OF creator] chat clock1
  have "\<lparr>cp_chat_room_id = cr_id chat, cp_user_id = creatorId, cp_role = ''creator'',
          cp_joined_at = current_timestamp db\<rparr> \<in> set (chat_participants db2)"
    by simp
  from add_other_participants_keeps [OF others this] db' chat show ?thesis by simp
qed

lemma select_direct_chat_Inr:
  assumes "select_direct_chat userId1 userId2 db = (Inr (row # rest), db')"
  shows "row \<in> set (chat_rooms db)"
proof -
  from assms have "take 1 (filter (\<lambda>r. cr_type r = ''direct'' \<and> is_participant db (cr_id r) userId1
                                        \<and> is_participant db (cr_id r) userId2) (chat_rooms db)) = row # rest"
    by (auto simp: select_direct_chat_def split: if_splits)
  then have "row \<in> set (take 1 (filter (\<lambda>r. cr_type r = ''direct'' \<and> is_participant db (cr_id r) userId1
                                        \<and> is_participant db (cr_id r) userId2) (chat_rooms db)))"
    by simp
  then show ?thesis by (auto dest: in_set_takeD)
qed

lemma createDirectChat_new_members:
  assumes made: "createDirectChat isValidUuid userId1 userId2 db = (Inr chat, db')"
      and new: "cr_id chat \<notin> set (map cr_id (chat_rooms db))"
      and fk: "list_all (\<lambda>p. cp_chat_room_id p \<in> set (map cr_id (chat_rooms db))) (chat_participants db)"
  shows "map (\<lambda>p. (cp_user_id p, cp_role p))
           (filter (\<lambda>p. cp_chat_room_id p = cr_id chat) (chat_participants db'))
           = [(userId1, ''member''), (userId2, ''member'')]
       \<and> cr_type chat = ''direct''"
proof -
  from made have tx: "transaction (createDirectChat_callback userId1 userId2) db = (Inr chat, db')"
    by (auto simp: createDirectChat_def split: sum.splits if_splits)
  let ?d = "io_step (io_step db)"
  from transaction_Inr [OF tx] obtain db5 where
    cb: "createDirectChat_callback userId1 userId2 ?d = (Inr chat, db5)" and
    db': "db' = io_step db5"
    by blast
  obtain existing d1 where sel: "select_direct_chat userId1 userId2 ?d = (Inr existing, d1)"
    using cb by (auto simp: createDirectChat_callback_def split: sum.splits prod.splits)
  have d1: "d1 = io_step ?d"
    using sel by (auto simp: select_direct_chat_def split: if_splits)
  have "existing = []"
  proof (cases existing)
    case Nil
    then show ?thesis .
  next
    case (Cons row rest)
    with cb sel have "chat = row" by (simp add: createDirectChat_callback_def)
    moreover from select_direct_chat_Inr [OF sel [unfolded Cons]] have "row \<in> set (chat_rooms db)"
      by simp
    ultimately have False using new by auto
    then show ?thesis ..
  qed
  with cb sel obtain db2 db3 where
    room: "insert_chat_room (next_uuid d1) None ''direct'' userId1 (draw_uuid d1) = (Inr chat, db2)" and
    first: "insert_chat_participant (next_uuid d1) userId1 ''member'' db2 = (Inr (), db3)" and
    second: "insert_chat_participant (next_uuid d1) userId2 ''member'' db3 = (Inr (), db5)"
    by (auto simp: createDirectChat_callback_def Let_def split: sum.splits prod.splits)
  note r = insert_chat_room_Inr [OF room]
  have id: "cr_id chat = next_uuid d1" using r by simp
  have before: "chat_participants db2 = chat_participants db"
    using r d1 by (simp add: draw_uuid_def)
  have none: "filter (\<lambda>p. cp_chat_room_id p = cr_id chat) (chat_participants db) = []"
  proof -
    have "cp_chat_room_id p \<noteq> cr_id chat" if "p \<in> set (chat_participants db)" for p
      using fk new that unfolding list_all_iff by metis
    then show ?thesis by (simp add: filter_empty_conv)
  qed
  from insert_chat_participant_Inr [OF first] insert_chat_participant_Inr [OF second] before
  have "chat_participants db5 = chat_participants db @
          [\<lparr>cp_chat_room_id = next_uuid d1, cp_user_id = userId1, cp_role = ''member'',
            cp_joined_at = current_timestamp db2\<rparr>,
           \<lparr>cp_chat_room_id = next_uuid d1, cp_user_id = userId2, cp_role = ''member'',
            cp_joined_at = current_timestamp db3\<rparr>]"
    by simp
  with none id db' r show ?thesis by simp
qed

text \<open>
  C9 (after \<open>createDirectChat\<close> and after \<open>createGroupChat\<close> the conversation has at least
  one member with role creator or admin, while in a direct conversation both members have
  role member). As stated the claim fails for direct conversations: the one that
  \<open>createDirectChat\<close> makes for alice and carol has two participant rows, both with role
  member, and so none with role creator or admin.
\<close>

theorem createDirectChat_no_creator_counterexample:
  "(\<exists>chat. fst (createDirectChat uuid_shape alice carol demo_db) = Inr chat
       \<and> cr_id chat = fresh_uuids 0 \<and> cr_type chat = ''direct'')
   \<and> map (\<lambda>p. (cp_user_id p, cp_role p))
       (filter (\<lambda>p. cp_chat_room_id p = fresh_uuids 0)
          (chat_participants (snd (createDirectChat uuid_shape alice carol demo_db))))
       = [(alice, ''member''), (carol, ''member'')]
   \<and> \<not> list_ex (\<lambda>p. cp_chat_room_id p = fresh_uuids 0 \<and> (cp_role p = ''creator'' \<or> cp_role p = ''admin''))
         (chat_participants (snd (createDirectChat uuid_shape alice carol demo_db)))"
  by (simp add: createDirectChat_def createDirectChat_callback_def validateUuid_def transaction_def
      getClient_def client_query_control_def select_direct_chat_def is_participant_def
      insert_chat_room_def insert_chat_participant_def varchar_def io_fault_def io_step_def
      next_uuid_def draw_uuid_def Let_def deployment_defs)

text \<open>
  C9, amended: after a successful \<open>createGroupChat\<close> the conversation is a group whose
  participants include the creator with role creator. After a \<open>createDirectChat\<close> that
  made a new conversation (in a store whose participant rows all refer to existing rooms)
  the conversation is direct and its participants are exactly the two users, both with
  role member, so none has role creator or admin.
\<close>

theorem created_conversation_roles:
  "(createGroupChat isValidUuid name creatorId participantIds db = (Inr groupChat, db1) \<longrightarrow>
      cr_type groupChat = ''group''
    \<and> list_ex (\<lambda>p. cp_chat_room_id p = cr_id groupChat \<and> cp_user_id p = creatorId \<and> cp_role p = ''creator'')
        (chat_participants db1))
   \<and> (createDirectChat isValidUuid userId1 userId2 db = (Inr directChat, db2)
        \<and> cr_id directChat \<notin> set (map cr_id (chat_rooms db))
        \<and> list_all (\<lambda>p. cp_chat_room_id p \<in> set (map cr_id (chat_rooms db))) (chat_participants db) \<longrightarrow>
      cr_type directChat = ''direct''
    \<and> map (\<lambda>p. (cp_user_id p, cp_role p))
        (filter (\<lambda>p. cp_chat_room_id p = cr_id directChat) (chat_participants db2))
        = [(userId1, ''member''), (userId2, ''member'')])"
proof (intro conjI impI)
  assume g: "createGroupChat isValidUuid name creatorId participantIds db = (Inr groupChat, db1)"
  from createGroupChat_creator [OF g] show "cr_type groupChat = ''group''" by simp
  from createGroupChat_creator [OF g]
  show "list_ex (\<lambda>p. cp_chat_room_id p = cr_id groupChat \<and> cp_user_id p = creatorId \<and> cp_role p = ''creator'')
        (chat_participants db1)"
    unfolding list_ex_iff
    by (intro bexI [where x = "\<lparr>cp_chat_room_id = cr_id groupChat, cp_user_id = creatorId,
          cp_role = ''creator'', cp_joined_at = current_timestamp db\<rparr>"]) simp_all
next
  assume d: "createDirectChat isValidUuid userId1 userId2 db = (Inr directChat, db2)
        \<and> cr_id directChat \<notin> set (map cr_id (chat_rooms db))
        \<and> list_all (\<lambda>p. cp_chat_room_id p \<in> set (map cr_id (chat_rooms db))) (chat_participants db)"
  have r: "map (\<lambda>p. (cp_user_id p, cp_role p))
           (filter (\<lambda>p. cp_chat_room_id p = cr_id directChat) (chat_participants db2))
           = [(userId1, ''member''), (userId2, ''member'')]
       \<and> cr_type directChat = ''direct''"
    by (rule createDirectChat_new_members
          [OF d [THEN conjunct1] d [THEN conjunct2, THEN conjunct1] d [THEN conjunct2, THEN conjunct2]])
  from r show "cr_type directChat = ''direct''" by simp
  from r show "map (\<lambda>p. (cp_user_id p, cp_role p))
        (filter (\<lambda>p. cp_chat_room_id p = cr_id directChat) (chat_participants db2))
        = [(userId1, ''member''), (userId2, ''member'')]" by simp
qed

lemmas creation_eval =
  createGroupChat_def createGroupChat_callback_def createDirectChat_def createDirectChat_callback_def
  validateUuid_def transaction_def getClient_def client_query_control_def
  select_direct_chat_def is_participant_def insert_chat_room_def insert_chat_participant_def
  varchar_def io_fault_def io_step_def next_uuid_def draw_uuid_def Let_def

theorem created_conversation_roles_witness:
  "fst (createGroupChat uuid_shape ''Friends'' alice [bob, carol] demo_db) = Inr friends_chat
   \<and> cr_type friends_chat = ''group''
   \<and> list_ex (\<lambda>p. cp_chat_room_id p = cr_id friends_chat \<and> cp_user_id p = alice \<and> cp_role p = ''creator'')
       (chat_participants (snd (createGroupChat uuid_shape ''Friends'' alice [bob, carol] demo_db)))
   \<and> fst (createDirectChat uuid_shape alice carol demo_db) = Inr alice_carol_chat
   \<and> cr_id alice_carol_chat \<notin> set (map cr_id (chat_rooms demo_db))
   \<and> list_all (\<lambda>p. cp_chat_room_id p \<in> set (map cr_id (chat_rooms demo_db))) (chat_participants demo_db)
   \<and> cr_type alice_carol_chat = ''direct''
   \<and> map (\<lambda>p. (cp_user_id p, cp_role p))
       (filter (\<lambda>p. cp_chat_room_id p = cr_id alice_carol_chat)
          (chat_participants (snd (createDirectChat uuid_shape alice carol demo_db))))
       = [(alice, ''member''), (carol, ''member'')]"
proof -
  have g: "fst (createGroupChat uuid_shape ''Friends'' alice [bob, carol] demo_db) = Inr friends_chat"
    by (simp add: creation_eval friends_chat_def deployment_defs)
  have d: "fst (createDirectChat uuid_shape alice carol demo_db) = Inr alice_carol_chat"
    by (simp add: creation_eval alice_carol_chat_def deployment_defs)
  have new: "cr_id alice_carol_chat \<notin> set (map cr_id (chat_rooms demo_db))"
    by (simp add: alice_carol_chat_def deployment_defs)
  have fk: "list_all (\<lambda>p. cp_chat_room_id p \<in> set (map cr_id (chat_rooms demo_db)))
              (chat_participants demo_db)"
    by (simp add: demo_db_def)
  from g have g': "createGroupChat uuid_shape ''Friends'' alice [bob, carol] demo_db
      = (Inr friends_chat, snd (createGroupChat uuid_shape ''Friends'' alice [bob, carol] demo_db))"
    by (metis prod.collapse)
  from d have d': "createDirectChat uuid_shape alice carol demo_db
      = (Inr alice_carol_chat, snd (createDirectChat uuid_shape alice carol demo_db))"
    by (metis prod.collapse)
  from created_conversation_roles
    [of uuid_shape "''Friends''" alice "[bob, carol]" demo_db friends_chat
        "snd (createGroupChat uuid_shape ''Friends'' alice [bob, carol] demo_db)"
        alice carol alice_carol_chat "snd (createDirectChat uuid_shape alice carol demo_db)"]
    g' d' new fk g d
  show ?thesis by blast
qed

end
